theory Spec2Isabelle
  imports Complex_Main "HOL-Library.Product_Lexorder"
begin

section \<open>Values shared by the handlers and the schema\<close>

text \<open>
  Identifiers are the textual form of a UUID; timestamps are the text that
  \<^verbatim>\<open>new Date().toISOString()\<close> or \<^verbatim>\<open>NOW()\<close> yields. A nullable column is an
  \<open>option\<close>, \<open>None\<close> being SQL's NULL.
\<close>

type_synonym uuid = string
type_synonym timestamp = string

text \<open>JSON values, as request bodies, response bodies and JSONB columns carry them.\<close>

datatype json =
    JNull
  | JBool bool
  | JNum real
  | JStr string
  | JArr "json list"
  | JObj "(string \<times> json) list"

text \<open>
  A JavaScript object: its own properties in insertion order, each key once. Assigning a
  key that exists replaces the value in place; a new key goes to the end.
\<close>

type_synonym jobject = "(string \<times> json) list"

fun obj_put :: "string \<times> json \<Rightarrow> jobject \<Rightarrow> jobject" where
  "obj_put (k, v) [] = [(k, v)]"
| "obj_put (k, v) ((k', v') # kvs) =
     (if k = k' then (k, v) # kvs else (k', v') # obj_put (k, v) kvs)"

text \<open>Property read \<^verbatim>\<open>o[k]\<close>: \<open>None\<close> is \<^verbatim>\<open>undefined\<close>.\<close>

definition obj_get :: "jobject \<Rightarrow> string \<Rightarrow> json option" where
  "obj_get kvs k = map_of kvs k"

text \<open>Decimal text of an array index, the property name of an element.\<close>

fun show_nat :: "nat \<Rightarrow> string" where
  "show_nat n =
     (if n < 10 then [char_of (48 + n)] else show_nat (n div 10) @ [char_of (48 + n mod 10)])"

text \<open>
  The own enumerable properties that a spread \<^verbatim>\<open>{...x}\<close> copies: those of an object,
  the indexed elements of an array or of a string, none of a number, a boolean or null.
\<close>

fun js_spread :: "json \<Rightarrow> jobject" where
  "js_spread (JObj kvs) = fold obj_put kvs []"
| "js_spread (JArr xs) = zip (map show_nat [0..<length xs]) xs"
| "js_spread (JStr s) = zip (map show_nat [0..<length s]) (map (\<lambda>c. JStr [c]) s)"
| "js_spread _ = []"

text \<open>
  A parsed request body. Reading a property of \<^verbatim>\<open>null\<close> throws a TypeError; of any other
  value that is not an object it yields \<^verbatim>\<open>undefined\<close> for the member names used here.
\<close>

datatype 'a js_result = Ok 'a | Throws string

definition body_member :: "json \<Rightarrow> string \<Rightarrow> json option js_result" where
  "body_member b k =
     (case b of
        JNull \<Rightarrow> Throws ''TypeError''
      | JObj kvs \<Rightarrow> Ok (obj_get (fold obj_put kvs []) k)
      | _ \<Rightarrow> Ok None)"

text \<open>JavaScript's truthiness, as \<^verbatim>\<open>!x\<close> and \<^verbatim>\<open>x || y\<close> use it.\<close>

fun js_truthy :: "json \<Rightarrow> bool" where
  "js_truthy JNull = False"
| "js_truthy (JBool b) = b"
| "js_truthy (JNum n) = (n \<noteq> 0)"
| "js_truthy (JStr s) = (s \<noteq> [])"
| "js_truthy (JArr _) = True"
| "js_truthy (JObj _) = True"

text \<open>An HTTP response: the status and the JSON object of the body, keys in the order written.\<close>

record response =
  status :: nat
  body :: "(string \<times> json) list"

definition json_response :: "(string \<times> json) list \<Rightarrow> nat \<Rightarrow> response" where
  "json_response b s = \<lparr> status = s, body = b \<rparr>"

section \<open>Tables of \<^verbatim>\<open>001_initial_schema.sql\<close> and its two later migrations\<close>

record profile =
  p_id :: uuid
  p_email :: string
  p_full_name :: "string option"
  p_role :: "string option"
  p_is_active :: "bool option"
  p_created_at :: "timestamp option"
  p_updated_at :: "timestamp option"

record document =
  d_id :: uuid
  d_filename :: string
  d_original_filename :: string
  d_doc_type :: string
  d_storage_path :: string
  d_file_size :: "int option"
  d_mime_type :: "string option"
  d_upload_date :: timestamp
  d_uploaded_by :: "uuid option"
  d_processing_status :: string
  d_total_chunks :: "int option"
  d_approved_chunks :: "int option"
  d_rejected_chunks :: "int option"
  d_metadata :: "json option"
  d_error_message :: "string option"

record document_chunk =
  c_id :: uuid
  c_document_id :: uuid
  c_chunk_index :: int
  c_chunk_text :: string
  c_chunk_size :: "int option"
  c_ai_metadata :: "json option"
  c_confidence_score :: "real option"
  c_review_status :: string
  c_curator_notes :: "string option"
  c_reviewed_by :: "uuid option"
  c_reviewed_at :: "timestamp option"
  c_is_filtered :: bool
  c_filtered_reason :: "string option"
  c_created_at :: timestamp
  c_metadata_edited :: bool
  c_metadata_edited_by :: "uuid option"
  c_metadata_edited_at :: "timestamp option"

type_synonym vector = "real list"

record kb_vector =
  k_id :: uuid
  k_chunk_id :: uuid
  k_document_id :: uuid
  k_content :: string
  k_embedding_openai :: "vector option"
  k_embedding_gemini :: "vector option"
  k_doc_type :: string
  k_topic :: "string option"
  k_subtopic :: "string option"
  k_use_cases :: "string list option"
  k_key_concepts :: "string list option"
  k_relevance_score :: "real option"
  k_curator_notes :: "string option"
  k_source_document :: "string option"
  k_source_page :: "int option"
  k_approved_date :: timestamp
  k_approved_by :: "uuid option"
  k_source_url :: "string option"
  k_domain :: "string option"
  k_curator_name :: "string option"
  k_tags :: "string list option"
  k_chunk_index :: "int option"
  k_word_count :: "int option"
  k_last_updated :: "timestamp option"

record setting =
  s_key :: string
  s_value :: json
  s_updated_at :: "timestamp option"
  s_updated_by :: "uuid option"

text \<open>The database: one list of rows per table.\<close>

record db =
  profiles :: "profile list"
  documents :: "document list"
  document_chunks :: "document_chunk list"
  kb_vectors :: "kb_vector list"
  settings :: "setting list"

text \<open>
  The row of \<^verbatim>\<open>auth.users\<close> the identity provider keeps. \<^verbatim>\<open>raw_user_meta_data\<close>
  maps a key to the text \<^verbatim>\<open>->>\<close> yields for it; a key whose value is JSON null is
  absent, as \<^verbatim>\<open>->>\<close> yields NULL for both.
\<close>

record auth_user =
  u_id :: uuid
  u_email :: "string option"
  u_raw_user_meta_data :: "(string \<rightharpoonup> string) option"

text \<open>What \<^verbatim>\<open>supabase.auth.getUser()\<close> answers: \<^verbatim>\<open>{ data: { user }, error }\<close>.\<close>

record session =
  authError :: "string option"
  user :: "auth_user option"

text \<open>\<^verbatim>\<open>.single()\<close>: the row when exactly one row matches, otherwise no data (an error).\<close>

fun single :: "'a list \<Rightarrow> 'a option" where
  "single [x] = Some x"
| "single _ = None"

text \<open>\<^verbatim>\<open>SELECT col INTO v\<close>: the first row's value, NULL when there is no row.\<close>

fun select_into :: "'a option list \<Rightarrow> 'a option" where
  "select_into [] = None"
| "select_into (x # _) = x"

section \<open>Role policy\<close>

subsection \<open>\<^verbatim>\<open>lib/auth/helpers.ts\<close>\<close>

definition getCurrentUser :: "session \<Rightarrow> db \<Rightarrow> profile option" where
  "getCurrentUser ses d =
     (case user ses of
        None \<Rightarrow> None
      | Some u \<Rightarrow>
          if authError ses \<noteq> None then None
          else single (filter (\<lambda>p. p_id p = u_id u) (profiles d)))"

definition hasRole :: "session \<Rightarrow> db \<Rightarrow> string \<Rightarrow> bool" where
  "hasRole ses d requiredRole =
     (case getCurrentUser ses d of
        None \<Rightarrow> False
      | Some u \<Rightarrow>
          if p_is_active u \<noteq> Some True then False
          else if p_role u = Some ''admin'' then True
          else if p_role u = Some ''curator'' \<and> (requiredRole = ''curator'' \<or> requiredRole = ''user'') then True
          else if p_role u = Some ''user'' \<and> requiredRole = ''user'' then True
          else False)"

subsection \<open>\<^verbatim>\<open>has_role\<close> of the schema\<close>

definition has_role :: "db \<Rightarrow> uuid option \<Rightarrow> string option \<Rightarrow> bool" where
  "has_role d user_id required_role =
     (let user_role = select_into (map p_role
            (filter (\<lambda>p. Some (p_id p) = user_id \<and> p_is_active p = Some True) (profiles d)))
      in if user_role = None then False
         else if user_role = Some ''admin'' then True
         else if user_role = Some ''curator'' \<and> required_role \<in> {Some ''curator'', Some ''user''} then True
         else if user_role = Some ''user'' \<and> required_role = Some ''user'' then True
         else False)"

text \<open>
  The hierarchy table as the specification words it: admin satisfies any required role,
  curator satisfies curator and user, user satisfies user only.
\<close>

definition satisfies_table :: "string \<Rightarrow> string \<Rightarrow> bool" where
  "satisfies_table r q =
     (r = ''admin'' \<or> (r = ''curator'' \<and> q \<in> {''curator'', ''user''}) \<or> (r = ''user'' \<and> q = ''user''))"

definition roles :: "string set" where
  "roles = {''user'', ''curator'', ''admin''}"

text \<open>A signed-in caller whose profile row is \<open>p\<close>: the session and the database \<open>hasRole\<close> reads.\<close>

definition session_of :: "profile \<Rightarrow> session" where
  "session_of p = \<lparr> authError = None,
     user = Some \<lparr> u_id = p_id p, u_email = Some (p_email p), u_raw_user_meta_data = None \<rparr> \<rparr>"

definition db_of :: "profile \<Rightarrow> db" where
  "db_of p = \<lparr> profiles = [p], documents = [], document_chunks = [], kb_vectors = [], settings = [] \<rparr>"

definition mk_profile :: "uuid \<Rightarrow> string \<Rightarrow> bool \<Rightarrow> profile" where
  "mk_profile i r a = \<lparr> p_id = i, p_email = ''a@example.org'', p_full_name = Some [],
     p_role = Some r, p_is_active = Some a, p_created_at = None, p_updated_at = None \<rparr>"

section \<open>Profile mutations of \<^verbatim>\<open>lib/auth/helpers.ts\<close>\<close>

text \<open>The value both mutations resolve to: \<^verbatim>\<open>{ success, error? }\<close>.\<close>

record action_result =
  success :: bool
  error :: "string option"

definition failed :: "string \<Rightarrow> action_result" where
  "failed msg = \<lparr> success = False, error = Some msg \<rparr>"

definition succeeded :: action_result where
  "succeeded = \<lparr> success = True, error = None \<rparr>"

text \<open>\<^verbatim>\<open>CHECK (role IN ('user', 'curator', 'admin'))\<close>; a CHECK passes on NULL.\<close>

definition profile_check :: "profile \<Rightarrow> bool" where
  "profile_check p =
     (case p_role p of None \<Rightarrow> True | Some r \<Rightarrow> r \<in> set [''user'', ''curator'', ''admin''])"

text \<open>
  \<^verbatim>\<open>from('profiles').update(...).eq('id', i)\<close>. The statement is atomic: a failure of
  the backing store (\<open>fault\<close>, an input of the model) or a violated CHECK leaves the table
  as it was and is reported as the error.
\<close>

definition update_profiles ::
  "string option \<Rightarrow> (profile \<Rightarrow> profile) \<Rightarrow> uuid \<Rightarrow> db \<Rightarrow> string + db" where
  "update_profiles fault f i d =
     (case fault of
        Some e \<Rightarrow> Inl e
      | None \<Rightarrow>
          let rows = map (\<lambda>p. if p_id p = i then f p else p) (profiles d)
          in if list_all (\<lambda>p. p_id p = i \<longrightarrow> profile_check p) rows
             then Inr (d\<lparr>profiles := rows\<rparr>)
             else Inl ''violates check constraint profiles_role_check'')"

definition updateUserRole ::
  "session \<Rightarrow> string option \<Rightarrow> timestamp \<Rightarrow> uuid \<Rightarrow> string \<Rightarrow> db \<Rightarrow> action_result \<times> db" where
  "updateUserRole ses fault now userId newRole d =
     (case getCurrentUser ses d of
        None \<Rightarrow> (failed ''Only admins can change user roles'', d)
      | Some currentUser \<Rightarrow>
          if p_role currentUser \<noteq> Some ''admin''
          then (failed ''Only admins can change user roles'', d)
          else if p_id currentUser = userId
          then (failed ''Cannot change your own role'', d)
          else (case update_profiles fault
                       (\<lambda>p. p\<lparr>p_role := Some newRole, p_updated_at := Some now\<rparr>) userId d of
                  Inl e \<Rightarrow> (failed e, d)
                | Inr d' \<Rightarrow> (succeeded, d')))"

definition setUserActiveStatus ::
  "session \<Rightarrow> string option \<Rightarrow> timestamp \<Rightarrow> uuid \<Rightarrow> bool \<Rightarrow> db \<Rightarrow> action_result \<times> db" where
  "setUserActiveStatus ses fault now userId isActive d =
     (case getCurrentUser ses d of
        None \<Rightarrow> (failed ''Only admins can change user status'', d)
      | Some currentUser \<Rightarrow>
          if p_role currentUser \<noteq> Some ''admin''
          then (failed ''Only admins can change user status'', d)
          else if p_id currentUser = userId \<and> \<not> isActive
          then (failed ''Cannot deactivate your own account'', d)
          else (case update_profiles fault
                       (\<lambda>p. p\<lparr>p_is_active := Some isActive, p_updated_at := Some now\<rparr>) userId d of
                  Inl e \<Rightarrow> (failed e, d)
                | Inr d' \<Rightarrow> (succeeded, d')))"

section \<open>Route handlers\<close>

text \<open>The responses the handlers share.\<close>

definition unauthorized :: response where
  "unauthorized = json_response [(''error'', JStr ''Unauthorized'')] 401"

definition insufficient_permissions :: response where
  "insufficient_permissions = json_response [(''error'', JStr ''Insufficient permissions'')] 403"

definition internal_server_error :: response where
  "internal_server_error = json_response [(''error'', JStr ''Internal server error'')] 500"

text \<open>
  The signed-in user of a handler that tests \<^verbatim>\<open>authError || !user\<close>, and the row its
  \<^verbatim>\<open>from('profiles').select('role').eq('id', user.id).single()\<close> yields.
\<close>

definition session_user :: "session \<Rightarrow> auth_user option" where
  "session_user ses = (if authError ses \<noteq> None then None else user ses)"

definition profile_of :: "auth_user \<Rightarrow> db \<Rightarrow> profile option" where
  "profile_of u d = single (filter (\<lambda>p. p_id p = u_id u) (profiles d))"

text \<open>\<^verbatim>\<open>!profile || !['curator', 'admin'].includes(profile.role)\<close>\<close>

definition not_curator_or_admin :: "profile option \<Rightarrow> bool" where
  "not_curator_or_admin profile =
     (case profile of None \<Rightarrow> True | Some p \<Rightarrow> p_role p \<notin> set [Some ''curator'', Some ''admin''])"

subsection \<open>\<^verbatim>\<open>POST /api/chunks/[id]/review\<close>\<close>

text \<open>
  \<^verbatim>\<open>approveChunk\<close> and \<^verbatim>\<open>rejectChunk\<close> live in \<^verbatim>\<open>lib/api/curator\<close>; the handler is
  modelled for any such pair. Each returns the database it leaves and what it threw, if
  anything: an \<^verbatim>\<open>Error\<close> with its message, or some other value.
\<close>

datatype thrown = ErrorObject string | OtherValue

fun thrown_message :: "thrown \<Rightarrow> string" where
  "thrown_message (ErrorObject m) = m"
| "thrown_message OtherValue = ''Unknown error''"

text \<open>\<^verbatim>\<open>notes || ''\<close>\<close>

definition notes_or_empty :: "json option \<Rightarrow> json" where
  "notes_or_empty notes =
     (case notes of None \<Rightarrow> JStr [] | Some n \<Rightarrow> if js_truthy n then n else JStr [])"

definition review_action ::
  "(uuid \<Rightarrow> json \<Rightarrow> uuid \<Rightarrow> db \<Rightarrow> thrown option \<times> db) \<Rightarrow> (uuid \<Rightarrow> uuid \<Rightarrow> db \<Rightarrow> thrown option \<times> db)
   \<Rightarrow> auth_user \<Rightarrow> uuid \<Rightarrow> json option \<Rightarrow> json option \<Rightarrow> db \<Rightarrow> response \<times> db" where
  "review_action approveChunk rejectChunk u i action notes d =
     (if action \<notin> set [Some (JStr ''approve''), Some (JStr ''reject'')]
      then (json_response [(''error'', JStr ''Invalid action. Must be approve or reject'')] 400, d)
      else if action = Some (JStr ''approve'')
      then (case approveChunk i (notes_or_empty notes) (u_id u) d of
              (None, d') \<Rightarrow>
                (json_response [(''success'', JBool True),
                                (''message'', JStr ''Chunk approved successfully'')] 200, d')
            | (Some e, d') \<Rightarrow>
                (json_response [(''error'', JStr (''Failed to approve chunk: '' @ thrown_message e))] 500, d'))
      else (case rejectChunk i (u_id u) d of
              (None, d') \<Rightarrow>
                (json_response [(''success'', JBool True),
                                (''message'', JStr ''Chunk rejected successfully'')] 200, d')
            | (Some e, d') \<Rightarrow>
                (json_response [(''error'', JStr (''Failed to reject chunk: '' @ thrown_message e))] 500, d')))"

text \<open>\<open>request_json\<close> is what \<^verbatim>\<open>await request.json()\<close> yields: the parsed body, or a throw.\<close>

definition review_POST ::
  "(uuid \<Rightarrow> json \<Rightarrow> uuid \<Rightarrow> db \<Rightarrow> thrown option \<times> db) \<Rightarrow> (uuid \<Rightarrow> uuid \<Rightarrow> db \<Rightarrow> thrown option \<times> db)
   \<Rightarrow> session \<Rightarrow> uuid \<Rightarrow> json js_result \<Rightarrow> db \<Rightarrow> response \<times> db" where
  "review_POST approveChunk rejectChunk ses i request_json d =
     (case session_user ses of
        None \<Rightarrow> (unauthorized, d)
      | Some u \<Rightarrow>
          if not_curator_or_admin (profile_of u d) then (insufficient_permissions, d)
          else (case request_json of
                  Throws _ \<Rightarrow> (internal_server_error, d)
                | Ok b \<Rightarrow>
                    (case body_member b ''action'' of
                       Throws _ \<Rightarrow> (internal_server_error, d)
                     | Ok action \<Rightarrow>
                         (case body_member b ''notes'' of
                            Throws _ \<Rightarrow> (internal_server_error, d)
                          | Ok notes \<Rightarrow> review_action approveChunk rejectChunk u i action notes d))))"

subsection \<open>\<^verbatim>\<open>PUT /api/chunks/[id]/metadata\<close>\<close>

text \<open>
  \<^verbatim>\<open>{ ...currentChunk.ai_metadata, ...metadata, last_updated: now }\<close>; spreading the
  NULL of an empty column copies nothing.
\<close>

definition merge_metadata :: "json option \<Rightarrow> json \<Rightarrow> timestamp \<Rightarrow> jobject" where
  "merge_metadata current metadata now =
     fold obj_put (js_spread metadata @ [(''last_updated'', JStr now)])
       (case current of None \<Rightarrow> [] | Some j \<Rightarrow> js_spread j)"

text \<open>
  \<open>fetchError\<close> and \<open>updateError\<close> are failures of the backing store on the two
  statements; \<open>now1\<close> and \<open>now2\<close> are the two readings of the clock.
\<close>

definition edit_chunk_metadata ::
  "bool \<Rightarrow> bool \<Rightarrow> timestamp \<Rightarrow> timestamp \<Rightarrow> auth_user \<Rightarrow> uuid \<Rightarrow> json \<Rightarrow> db \<Rightarrow> response \<times> db" where
  "edit_chunk_metadata fetchError updateError now1 now2 u i metadata d =
     (case (if fetchError then None
            else single (filter (\<lambda>c. c_id c = i) (document_chunks d))) of
        None \<Rightarrow> (json_response [(''error'', JStr ''Chunk not found'')] 404, d)
      | Some currentChunk \<Rightarrow>
          let updatedMetadata = merge_metadata (c_ai_metadata currentChunk) metadata now1
          in if updateError
             then (json_response [(''error'', JStr ''Failed to update metadata'')] 500, d)
             else (json_response
                     [(''success'', JBool True),
                      (''message'', JStr ''Metadata updated successfully''),
                      (''metadata'', JObj updatedMetadata)] 200,
                   d\<lparr>document_chunks :=
                       map (\<lambda>c. if c_id c = i
                                 then c\<lparr>c_ai_metadata := Some (JObj updatedMetadata),
                                        c_metadata_edited := True,
                                        c_metadata_edited_by := Some (u_id u),
                                        c_metadata_edited_at := Some now2\<rparr>
                                 else c)
                           (document_chunks d)\<rparr>))"

definition metadata_PUT ::
  "bool \<Rightarrow> bool \<Rightarrow> timestamp \<Rightarrow> timestamp \<Rightarrow> session \<Rightarrow> uuid \<Rightarrow> json js_result \<Rightarrow> db \<Rightarrow> response \<times> db" where
  "metadata_PUT fetchError updateError now1 now2 ses i request_json d =
     (case session_user ses of
        None \<Rightarrow> (unauthorized, d)
      | Some u \<Rightarrow>
          if not_curator_or_admin (profile_of u d) then (insufficient_permissions, d)
          else (case request_json of
                  Throws _ \<Rightarrow> (internal_server_error, d)
                | Ok b \<Rightarrow>
                    (case body_member b ''metadata'' of
                       Throws _ \<Rightarrow> (internal_server_error, d)
                     | Ok None \<Rightarrow> (json_response [(''error'', JStr ''Metadata is required'')] 400, d)
                     | Ok (Some metadata) \<Rightarrow>
                         if \<not> js_truthy metadata
                         then (json_response [(''error'', JStr ''Metadata is required'')] 400, d)
                         else edit_chunk_metadata fetchError updateError now1 now2 u i metadata d)))"

subsection \<open>\<^verbatim>\<open>GET\<close> and \<^verbatim>\<open>POST /api/admin/settings\<close>\<close>

text \<open>
  \<^verbatim>\<open>from('settings').upsert(row)\<close>: insert, or on a conflict on the primary key
  \<^verbatim>\<open>key\<close> overwrite the row. \<open>fault\<close> is a failure of the backing store.
\<close>

definition upsert_setting :: "string option \<Rightarrow> setting \<Rightarrow> db \<Rightarrow> string + db" where
  "upsert_setting fault row d =
     (case fault of
        Some e \<Rightarrow> Inl e
      | None \<Rightarrow>
          Inr (d\<lparr>settings :=
                 (if list_ex (\<lambda>s. s_key s = s_key row) (settings d)
                  then map (\<lambda>s. if s_key s = s_key row then row else s) (settings d)
                  else settings d @ [row])\<rparr>))"

definition settings_GET :: "string option \<Rightarrow> db \<Rightarrow> response" where
  "settings_GET selectError d =
     (case selectError of
        Some e \<Rightarrow> json_response [(''error'', JStr e)] 500
      | None \<Rightarrow> json_response (fold (\<lambda>s. obj_put (s_key s, s_value s)) (settings d) []) 200)"

text \<open>
  Each of the two blocks of the handler either returns a response at once (\<open>Inl\<close>) or
  lets the handler go on with the database it leaves (\<open>Inr\<close>).
\<close>

definition handle_ai_provider ::
  "string option \<Rightarrow> timestamp \<Rightarrow> auth_user \<Rightarrow> json option \<Rightarrow> db \<Rightarrow> response + db" where
  "handle_ai_provider providerError now u provider d =
     (case provider of
        None \<Rightarrow> Inr d
      | Some pv \<Rightarrow>
          if pv \<notin> set [JStr ''gemini'', JStr ''openai'']
          then Inl (json_response [(''error'', JStr ''Invalid AI provider'')] 400)
          else (case upsert_setting providerError
                       \<lparr> s_key = ''ai_provider'', s_value = JObj [(''provider'', pv)],
                         s_updated_at = Some now, s_updated_by = Some (u_id u) \<rparr> d of
                  Inl e \<Rightarrow> Inl (json_response [(''error'', JStr e)] 500)
                | Inr d' \<Rightarrow> Inr d'))"

definition handle_document_processor ::
  "string option \<Rightarrow> timestamp \<Rightarrow> auth_user \<Rightarrow> json option \<Rightarrow> db \<Rightarrow> response + db" where
  "handle_document_processor processorError now u documentProcessor d =
     (case documentProcessor of
        None \<Rightarrow> Inr d
      | Some dp \<Rightarrow>
          if dp \<notin> set [JStr ''flowise'', JStr ''direct_gemini'']
          then Inl (json_response [(''error'', JStr ''Invalid document processor'')] 400)
          else (case upsert_setting processorError
                       \<lparr> s_key = ''document_processor'', s_value = JObj [(''processor'', dp)],
                         s_updated_at = Some now, s_updated_by = Some (u_id u) \<rparr> d of
                  Inl e \<Rightarrow> Inl (json_response [(''error'', JStr e)] 500)
                | Inr d' \<Rightarrow> Inr d'))"

text \<open>A member that is \<^verbatim>\<open>undefined\<close> is left out of the serialised body.\<close>

definition optional_member :: "string \<Rightarrow> json option \<Rightarrow> (string \<times> json) list" where
  "optional_member k v = (case v of None \<Rightarrow> [] | Some j \<Rightarrow> [(k, j)])"

definition persist_settings ::
  "string option \<Rightarrow> string option \<Rightarrow> timestamp \<Rightarrow> timestamp \<Rightarrow> auth_user
   \<Rightarrow> json option \<Rightarrow> json option \<Rightarrow> db \<Rightarrow> response \<times> db" where
  "persist_settings providerError processorError now1 now2 u provider documentProcessor d =
     (case handle_ai_provider providerError now1 u provider d of
        Inl r \<Rightarrow> (r, d)
      | Inr d1 \<Rightarrow>
          (case handle_document_processor processorError now2 u documentProcessor d1 of
             Inl r \<Rightarrow> (r, d1)
           | Inr d2 \<Rightarrow>
               (json_response ([(''success'', JBool True)] @ optional_member ''provider'' provider
                                @ optional_member ''documentProcessor'' documentProcessor) 200, d2)))"

text \<open>\<^verbatim>\<open>profile?.role !== 'admin'\<close>\<close>

definition not_admin :: "profile option \<Rightarrow> bool" where
  "not_admin profile = (case profile of None \<Rightarrow> True | Some p \<Rightarrow> p_role p \<noteq> Some ''admin'')"

definition settings_POST ::
  "string option \<Rightarrow> string option \<Rightarrow> timestamp \<Rightarrow> timestamp \<Rightarrow> session \<Rightarrow> json js_result \<Rightarrow> db
   \<Rightarrow> response \<times> db" where
  "settings_POST providerError processorError now1 now2 ses request_json d =
     (case user ses of
        None \<Rightarrow> (unauthorized, d)
      | Some u \<Rightarrow>
          if not_admin (profile_of u d) then (json_response [(''error'', JStr ''Forbidden'')] 403, d)
          else (case request_json of
                  Throws m \<Rightarrow> (json_response [(''error'', JStr m)] 500, d)
                | Ok b \<Rightarrow>
                    (case body_member b ''provider'' of
                       Throws m \<Rightarrow> (json_response [(''error'', JStr m)] 500, d)
                     | Ok provider \<Rightarrow>
                         (case body_member b ''documentProcessor'' of
                            Throws m \<Rightarrow> (json_response [(''error'', JStr m)] 500, d)
                          | Ok documentProcessor \<Rightarrow>
                              persist_settings providerError processorError now1 now2 u
                                provider documentProcessor d))))"

subsection \<open>\<^verbatim>\<open>POST /api/documents/upload\<close>\<close>

text \<open>The columns of \<^verbatim>\<open>documents\<close>, and its CHECK constraints.\<close>

definition documents_columns :: "string list" where
  "documents_columns =
     [''id'', ''filename'', ''original_filename'', ''doc_type'', ''storage_path'', ''file_size'',
      ''mime_type'', ''upload_date'', ''uploaded_by'', ''processing_status'', ''total_chunks'',
      ''approved_chunks'', ''rejected_chunks'', ''metadata'', ''error_message'']"

definition doc_types :: "string list" where
  "doc_types = [''fhir'', ''vbc'', ''grants'', ''billing'']"

definition processing_statuses :: "string list" where
  "processing_statuses = [''pending'', ''processing'', ''review'', ''completed'', ''failed'']"

definition documents_check :: "document \<Rightarrow> bool" where
  "documents_check r =
     (d_doc_type r \<in> set doc_types
      \<and> d_processing_status r \<in> set processing_statuses
      \<and> (case (d_approved_chunks r, d_total_chunks r) of
            (Some a, Some t) \<Rightarrow> a \<le> t
          | _ \<Rightarrow> True))"

text \<open>
  How a JSON value of an update lands in a typed column: text for a text column, a whole
  number for an integer column, null only where the column is nullable. \<open>None\<close> is the
  statement's failure.
\<close>

fun as_text :: "json \<Rightarrow> string option" where
  "as_text (JStr s) = Some s"
| "as_text _ = None"

fun as_text_null :: "json \<Rightarrow> string option option" where
  "as_text_null JNull = Some None"
| "as_text_null (JStr s) = Some (Some s)"
| "as_text_null _ = None"

fun as_int_null :: "json \<Rightarrow> int option option" where
  "as_int_null JNull = Some None"
| "as_int_null (JNum x) = (if x = of_int \<lfloor>x\<rfloor> then Some (Some \<lfloor>x\<rfloor>) else None)"
| "as_int_null _ = None"

definition set_document_column :: "string \<times> json \<Rightarrow> document \<Rightarrow> document option" where
  "set_document_column kv r =
     (let k = fst kv; v = snd kv in
      if k = ''id'' then map_option (\<lambda>x. r\<lparr>d_id := x\<rparr>) (as_text v)
      else if k = ''filename'' then map_option (\<lambda>x. r\<lparr>d_filename := x\<rparr>) (as_text v)
      else if k = ''original_filename'' then map_option (\<lambda>x. r\<lparr>d_original_filename := x\<rparr>) (as_text v)
      else if k = ''doc_type'' then map_option (\<lambda>x. r\<lparr>d_doc_type := x\<rparr>) (as_text v)
      else if k = ''storage_path'' then map_option (\<lambda>x. r\<lparr>d_storage_path := x\<rparr>) (as_text v)
      else if k = ''file_size'' then map_option (\<lambda>x. r\<lparr>d_file_size := x\<rparr>) (as_int_null v)
      else if k = ''mime_type'' then map_option (\<lambda>x. r\<lparr>d_mime_type := x\<rparr>) (as_text_null v)
      else if k = ''upload_date'' then map_option (\<lambda>x. r\<lparr>d_upload_date := x\<rparr>) (as_text v)
      else if k = ''uploaded_by'' then map_option (\<lambda>x. r\<lparr>d_uploaded_by := x\<rparr>) (as_text_null v)
      else if k = ''processing_status'' then map_option (\<lambda>x. r\<lparr>d_processing_status := x\<rparr>) (as_text v)
      else if k = ''total_chunks'' then map_option (\<lambda>x. r\<lparr>d_total_chunks := x\<rparr>) (as_int_null v)
      else if k = ''approved_chunks'' then map_option (\<lambda>x. r\<lparr>d_approved_chunks := x\<rparr>) (as_int_null v)
      else if k = ''rejected_chunks'' then map_option (\<lambda>x. r\<lparr>d_rejected_chunks := x\<rparr>) (as_int_null v)
      else if k = ''metadata'' then Some (r\<lparr>d_metadata := (if v = JNull then None else Some v)\<rparr>)
      else if k = ''error_message'' then map_option (\<lambda>x. r\<lparr>d_error_message := x\<rparr>) (as_text_null v)
      else None)"

fun apply_payload :: "jobject \<Rightarrow> document \<Rightarrow> document option" where
  "apply_payload [] r = Some r"
| "apply_payload (kv # kvs) r =
     (case set_document_column kv r of None \<Rightarrow> None | Some r' \<Rightarrow> apply_payload kvs r')"

text \<open>The rows after the update of those whose id is \<open>i\<close>; \<open>None\<close> when a value does not fit its column or a new row violates a CHECK.\<close>

fun update_document_rows :: "jobject \<Rightarrow> uuid \<Rightarrow> document list \<Rightarrow> document list option" where
  "update_document_rows payload i [] = Some []"
| "update_document_rows payload i (r # rs) =
     (if d_id r = i
      then (case apply_payload payload r of
              None \<Rightarrow> None
            | Some r' \<Rightarrow>
                if documents_check r' then map_option ((#) r') (update_document_rows payload i rs)
                else None)
      else map_option ((#) r) (update_document_rows payload i rs))"

text \<open>
  \<^verbatim>\<open>from('documents').update(payload).eq('id', i)\<close>: the error, if any, and the database
  left. The statement fails as a whole, changing nothing, when the backing store fails
  (\<open>fault\<close>), when the payload names a column the table does not have, or when a row
  cannot be updated.
\<close>

definition update_documents :: "string option \<Rightarrow> jobject \<Rightarrow> uuid \<Rightarrow> db \<Rightarrow> string option \<times> db" where
  "update_documents fault payload i d =
     (case fault of
        Some e \<Rightarrow> (Some e, d)
      | None \<Rightarrow>
          if list_ex (\<lambda>kv. fst kv \<notin> set documents_columns) payload
          then (Some ''column not found in the schema of documents'', d)
          else (case update_document_rows payload i (documents d) of
                  None \<Rightarrow> (Some ''new row for relation documents violates a constraint'', d)
                | Some rows \<Rightarrow> (None, d\<lparr>documents := rows\<rparr>)))"

text \<open>The form of the request: what \<^verbatim>\<open>formData.get\<close> yields for each field (\<open>None\<close> is null).\<close>

record uploaded_file =
  f_name :: string
  f_type :: string
  f_size :: nat

record upload_form =
  form_file :: "uploaded_file option"
  form_title :: "string option"
  form_documentType :: "string option"
  form_description :: "string option"

definition missing_required_fields :: response where
  "missing_required_fields = json_response [(''error'', JStr ''Missing required fields'')] 400"

definition metadata_payload :: "string \<Rightarrow> string \<Rightarrow> string option \<Rightarrow> jobject" where
  "metadata_payload t dt descr =
     [(''title'', JStr t), (''document_type'', JStr dt),
      (''description'', (case descr of None \<Rightarrow> JNull | Some x \<Rightarrow> JStr x)),
      (''processing_status'', JStr ''draft'')]"

text \<open>
  \<^verbatim>\<open>uploadDocument\<close> lives in \<^verbatim>\<open>lib/api/curator\<close>; the handler is modelled for any
  function in its place, which yields the id of the document or what it threw, and the
  database it leaves. \<open>form\<close> is what \<^verbatim>\<open>await request.formData()\<close> yields. The result
  is the response, the database left, and the lines written with \<^verbatim>\<open>console.error\<close>.
\<close>

definition upload_POST ::
  "(uploaded_file \<Rightarrow> string \<Rightarrow> db \<Rightarrow> (thrown + uuid) \<times> db) \<Rightarrow> string option
   \<Rightarrow> session \<Rightarrow> upload_form js_result \<Rightarrow> db \<Rightarrow> response \<times> db \<times> string list" where
  "upload_POST uploadDocument fault ses form d =
     (case session_user ses of
        None \<Rightarrow> (unauthorized, d, [])
      | Some u \<Rightarrow>
          if not_curator_or_admin (profile_of u d) then (insufficient_permissions, d, [])
          else (case form of
                  Throws m \<Rightarrow> (internal_server_error, d, [''Upload error: '' @ m])
                | Ok fd \<Rightarrow>
                    (case (form_file fd, form_title fd, form_documentType fd) of
                       (Some f, Some t, Some documentType) \<Rightarrow>
                         if t = [] \<or> documentType = [] then (missing_required_fields, d, [])
                         else (case uploadDocument f documentType d of
                                 (Inl e, d1) \<Rightarrow>
                                   (internal_server_error, d1, [''Upload error: '' @ thrown_message e])
                               | (Inr documentId, d1) \<Rightarrow>
                                   (case update_documents fault
                                           (metadata_payload t documentType (form_description fd))
                                           documentId d1 of
                                      (None, d2) \<Rightarrow>
                                        (json_response [(''documentId'', JStr documentId)] 200, d2, [])
                                    | (Some updateError, d2) \<Rightarrow>
                                        (json_response [(''documentId'', JStr documentId)] 200, d2,
                                         [''Failed to update document metadata: '' @ updateError])))
                     | _ \<Rightarrow> (missing_required_fields, d, []))))"

text \<open>
  Modelled from the spec: \<^verbatim>\<open>uploadDocument\<close> of \<^verbatim>\<open>lib/api/curator\<close>, which is not
  among the sources. The specification has a document "created on upload
  (status=pending)", with the fields of the \<^verbatim>\<open>documents\<close> table; the counters and the
  status take the defaults of the schema. The names under which the file is stored, the
  generated id, the uploader and the clock are inputs (\<open>upload_env\<close>), as is a failure of
  the storage or of the insert. The INSERT is subject to the CHECKs of the table.
\<close>

record upload_env =
  ue_failure :: "thrown option"
  ue_new_id :: uuid
  ue_filename :: string
  ue_storage_path :: string
  ue_uploaded_by :: "uuid option"
  ue_now :: timestamp

definition new_document :: "upload_env \<Rightarrow> uploaded_file \<Rightarrow> string \<Rightarrow> document" where
  "new_document env f docType =
     \<lparr> d_id = ue_new_id env, d_filename = ue_filename env, d_original_filename = f_name f,
       d_doc_type = docType, d_storage_path = ue_storage_path env,
       d_file_size = Some (int (f_size f)), d_mime_type = Some (f_type f),
       d_upload_date = ue_now env, d_uploaded_by = ue_uploaded_by env,
       d_processing_status = ''pending'', d_total_chunks = None,
       d_approved_chunks = Some 0, d_rejected_chunks = Some 0,
       d_metadata = None, d_error_message = None \<rparr>"

definition uploadDocument :: "upload_env \<Rightarrow> uploaded_file \<Rightarrow> string \<Rightarrow> db \<Rightarrow> (thrown + uuid) \<times> db" where
  "uploadDocument env f docType d =
     (case ue_failure env of
        Some e \<Rightarrow> (Inl e, d)
      | None \<Rightarrow>
          if list_ex (\<lambda>r. d_id r = ue_new_id env) (documents d)
          then (Inl (ErrorObject ''duplicate key value violates unique constraint documents_pkey''), d)
          else if \<not> documents_check (new_document env f docType)
          then (Inl (ErrorObject ''new row for relation documents violates a constraint''), d)
          else (Inr (ue_new_id env), d\<lparr>documents := documents d @ [new_document env f docType]\<rparr>))"

section \<open>Document completion: \<^verbatim>\<open>check_document_completion\<close> and its trigger\<close>

definition terminal_statuses :: "string list" where
  "terminal_statuses = [''approved'', ''rejected'', ''filtered'']"

text \<open>\<^verbatim>\<open>SELECT COUNT(*) ... WHERE document_id = doc_id AND review_status IN (...)\<close>\<close>

definition reviewed_count :: "db \<Rightarrow> uuid \<Rightarrow> int" where
  "reviewed_count d doc_id =
     int (length (filter (\<lambda>c. c_document_id c = doc_id \<and> c_review_status c \<in> set terminal_statuses)
                    (document_chunks d)))"

text \<open>\<^verbatim>\<open>SELECT total_chunks INTO total FROM documents WHERE id = doc_id\<close>\<close>

definition total_of :: "db \<Rightarrow> uuid \<Rightarrow> int option" where
  "total_of d doc_id = select_into (map d_total_chunks (filter (\<lambda>r. d_id r = doc_id) (documents d)))"

definition check_document_completion :: "document_chunk \<Rightarrow> db \<Rightarrow> db" where
  "check_document_completion NEW d =
     (let doc_id = c_document_id NEW;
          total = total_of d doc_id;
          reviewed = reviewed_count d doc_id
      in case total of
           None \<Rightarrow> d
         | Some t \<Rightarrow>
             if reviewed \<ge> t
             then d\<lparr>documents :=
                     map (\<lambda>r. if d_id r = doc_id then r\<lparr>d_processing_status := ''completed''\<rparr> else r)
                         (documents d)\<rparr>
             else d)"

text \<open>
  \<^verbatim>\<open>CREATE TRIGGER check_completion_after_review AFTER UPDATE OF review_status
  ON document_chunks FOR EACH ROW WHEN (NEW.review_status IN ('approved', 'rejected'))\<close>
\<close>

definition check_completion_after_review :: "document_chunk \<Rightarrow> db \<Rightarrow> db" where
  "check_completion_after_review NEW d =
     (if c_review_status NEW \<in> set [''approved'', ''rejected'']
      then check_document_completion NEW d else d)"

text \<open>The CHECKs of \<^verbatim>\<open>document_chunks\<close>.\<close>

definition review_statuses :: "string list" where
  "review_statuses = [''pending'', ''approved'', ''rejected'', ''filtered'', ''enriching'']"

definition chunk_check :: "document_chunk \<Rightarrow> bool" where
  "chunk_check c =
     (c_review_status c \<in> set review_statuses
      \<and> (case c_confidence_score c of None \<Rightarrow> True | Some x \<Rightarrow> 0 \<le> x \<and> x \<le> 1))"

text \<open>
  \<^verbatim>\<open>UPDATE document_chunks SET review_status = s WHERE id = i\<close>, the statement by which
  a chunk's review status becomes \<open>s\<close>: the rows are updated, the new rows are checked,
  and the trigger then runs once for each updated row. A violated CHECK fails the
  statement and leaves the database as it was.
\<close>

definition set_review_status :: "uuid \<Rightarrow> string \<Rightarrow> db \<Rightarrow> string + db" where
  "set_review_status i s d =
     (let rows = map (\<lambda>c. if c_id c = i then c\<lparr>c_review_status := s\<rparr> else c) (document_chunks d);
          updated = filter (\<lambda>c. c_id c = i) rows
      in if list_all chunk_check updated
         then Inr (fold check_completion_after_review updated (d\<lparr>document_chunks := rows\<rparr>))
         else Inl ''new row for relation document_chunks violates a check constraint'')"

section \<open>Similarity search: \<^verbatim>\<open>match_documents\<close>\<close>

text \<open>SQL's three-valued logic: \<open>None\<close> is NULL (unknown).\<close>

definition sql_and :: "bool option \<Rightarrow> bool option \<Rightarrow> bool option" where
  "sql_and a b =
     (if a = Some False \<or> b = Some False then Some False
      else if a = Some True \<and> b = Some True then Some True else None)"

definition sql_or :: "bool option \<Rightarrow> bool option \<Rightarrow> bool option" where
  "sql_or a b =
     (if a = Some True \<or> b = Some True then Some True
      else if a = Some False \<and> b = Some False then Some False else None)"

definition sql_eq :: "'a option \<Rightarrow> 'a option \<Rightarrow> bool option" where
  "sql_eq a b = (case (a, b) of (Some x, Some y) \<Rightarrow> Some (x = y) | _ \<Rightarrow> None)"

definition sql_gt :: "real option \<Rightarrow> real option \<Rightarrow> bool option" where
  "sql_gt a b = (case (a, b) of (Some x, Some y) \<Rightarrow> Some (x > y) | _ \<Rightarrow> None)"

definition sql_is_null :: "'a option \<Rightarrow> bool option" where
  "sql_is_null a = Some (a = None)"

text \<open>\<^verbatim>\<open>a && b\<close>: the two arrays have an element in common.\<close>

definition sql_overlap :: "string list option \<Rightarrow> string list option \<Rightarrow> bool option" where
  "sql_overlap a b =
     (case (a, b) of (Some xs, Some ys) \<Rightarrow> Some (list_ex (\<lambda>x. x \<in> set ys) xs) | _ \<Rightarrow> None)"

text \<open>
  \<^verbatim>\<open>a <=> b\<close> is the cosine distance of the vector extension, a parameter \<open>cdist\<close> of the
  model, here over the reals; it is NULL when an operand is. \<^verbatim>\<open>1 - x\<close> likewise.
\<close>

definition sql_distance ::
  "(vector \<Rightarrow> vector \<Rightarrow> real) \<Rightarrow> vector option \<Rightarrow> vector option \<Rightarrow> real option" where
  "sql_distance cdist a b = (case (a, b) of (Some x, Some y) \<Rightarrow> Some (cdist x y) | _ \<Rightarrow> None)"

definition one_minus :: "real option \<Rightarrow> real option" where
  "one_minus x = map_option (\<lambda>v. 1 - v) x"

text \<open>The \<^verbatim>\<open>CASE WHEN provider = 'openai' THEN ... ELSE ... END\<close> of the ORDER BY clause.\<close>

definition distance_of ::
  "(vector \<Rightarrow> vector \<Rightarrow> real) \<Rightarrow> string option \<Rightarrow> vector option \<Rightarrow> kb_vector \<Rightarrow> real option" where
  "distance_of cdist provider query_embedding k =
     (if sql_eq provider (Some ''openai'') = Some True
      then sql_distance cdist (k_embedding_openai k) query_embedding
      else sql_distance cdist (k_embedding_gemini k) query_embedding)"

text \<open>The \<^verbatim>\<open>CASE\<close> of the select list.\<close>

definition similarity_of ::
  "(vector \<Rightarrow> vector \<Rightarrow> real) \<Rightarrow> string option \<Rightarrow> vector option \<Rightarrow> kb_vector \<Rightarrow> real option" where
  "similarity_of cdist provider query_embedding k =
     (if sql_eq provider (Some ''openai'') = Some True
      then one_minus (sql_distance cdist (k_embedding_openai k) query_embedding)
      else one_minus (sql_distance cdist (k_embedding_gemini k) query_embedding))"

definition where_clause ::
  "(vector \<Rightarrow> vector \<Rightarrow> real) \<Rightarrow> vector option \<Rightarrow> real option \<Rightarrow> string option \<Rightarrow> string list option
   \<Rightarrow> string option \<Rightarrow> kb_vector \<Rightarrow> bool option" where
  "where_clause cdist query_embedding match_threshold filter_doc_type filter_use_cases provider k =
     sql_and
       (sql_and
          (sql_or (sql_is_null filter_doc_type) (sql_eq (Some (k_doc_type k)) filter_doc_type))
          (sql_or (sql_is_null filter_use_cases) (sql_overlap (k_use_cases k) filter_use_cases)))
       (sql_or
          (sql_and (sql_eq provider (Some ''openai''))
             (sql_gt (one_minus (sql_distance cdist (k_embedding_openai k) query_embedding)) match_threshold))
          (sql_and (sql_eq provider (Some ''gemini''))
             (sql_gt (one_minus (sql_distance cdist (k_embedding_gemini k) query_embedding)) match_threshold)))"

text \<open>Values of \<^verbatim>\<open>jsonb_build_object\<close>.\<close>

definition j_text :: "string option \<Rightarrow> json" where
  "j_text x = (case x of None \<Rightarrow> JNull | Some s \<Rightarrow> JStr s)"

definition j_int :: "int option \<Rightarrow> json" where
  "j_int x = (case x of None \<Rightarrow> JNull | Some n \<Rightarrow> JNum (of_int n))"

definition j_real :: "real option \<Rightarrow> json" where
  "j_real x = (case x of None \<Rightarrow> JNull | Some v \<Rightarrow> JNum v)"

definition j_texts :: "string list option \<Rightarrow> json" where
  "j_texts x = (case x of None \<Rightarrow> JNull | Some xs \<Rightarrow> JArr (map JStr xs))"

definition metadata_of :: "kb_vector \<Rightarrow> jobject" where
  "metadata_of k =
     [(''chunk_id'', JStr (k_chunk_id k)),
      (''source_document'', j_text (k_source_document k)),
      (''source_url'', j_text (k_source_url k)),
      (''document_type'', JStr (k_doc_type k)),
      (''domain'', j_text (k_domain k)),
      (''date_added'', JStr (k_approved_date k)),
      (''curator'', j_text (k_curator_name k)),
      (''tags'', j_texts (k_tags k)),
      (''chunk_index'', j_int (k_chunk_index k)),
      (''word_count'', j_int (k_word_count k)),
      (''last_updated'', j_text (k_last_updated k)),
      (''topic'', j_text (k_topic k)),
      (''subtopic'', j_text (k_subtopic k)),
      (''use_cases'', j_texts (k_use_cases k)),
      (''key_concepts'', j_texts (k_key_concepts k)),
      (''curator_notes'', j_text (k_curator_notes k)),
      (''relevance_score'', j_real (k_relevance_score k))]"

record match_row =
  m_id :: uuid
  m_content :: string
  m_similarity :: "real option"
  m_metadata :: jobject

definition select_row ::
  "(vector \<Rightarrow> vector \<Rightarrow> real) \<Rightarrow> string option \<Rightarrow> vector option \<Rightarrow> kb_vector \<Rightarrow> match_row" where
  "select_row cdist provider query_embedding k =
     \<lparr> m_id = k_id k, m_content = k_content k,
       m_similarity = similarity_of cdist provider query_embedding k,
       m_metadata = metadata_of k \<rparr>"

text \<open>
  The key of an ascending \<^verbatim>\<open>ORDER BY\<close>, NULLs last; rows with equal keys keep the order
  of the table (the database leaves their order open).
\<close>

definition order_key :: "real option \<Rightarrow> nat \<times> real" where
  "order_key x = (case x of None \<Rightarrow> (1, 0) | Some v \<Rightarrow> (0, v))"

text \<open>\<^verbatim>\<open>LIMIT n\<close>: all rows for NULL, an error for a negative count.\<close>

definition sql_limit :: "int option \<Rightarrow> 'a list \<Rightarrow> string + 'a list" where
  "sql_limit n rows =
     (case n of
        None \<Rightarrow> Inr rows
      | Some c \<Rightarrow> if c < 0 then Inl ''LIMIT must not be negative'' else Inr (take (nat c) rows))"

definition match_documents ::
  "(vector \<Rightarrow> vector \<Rightarrow> real) \<Rightarrow> kb_vector list \<Rightarrow> vector option \<Rightarrow> real option \<Rightarrow> int option
   \<Rightarrow> string option \<Rightarrow> string list option \<Rightarrow> string option \<Rightarrow> string + match_row list" where
  "match_documents cdist kb query_embedding match_threshold match_count filter_doc_type
       filter_use_cases provider =
     sql_limit match_count
       (map (select_row cdist provider query_embedding)
          (sort_key (\<lambda>k. order_key (distance_of cdist provider query_embedding k))
             (filter (\<lambda>k. where_clause cdist query_embedding match_threshold filter_doc_type
                             filter_use_cases provider k = Some True) kb)))"

section \<open>Profile creation on signup: \<^verbatim>\<open>handle_new_user\<close>\<close>







section \<open>Concrete rows, callers and collaborators\<close>

definition db_with :: "profile list \<Rightarrow> db" where
  "db_with ps = \<lparr> profiles = ps, documents = [], document_chunks = [], kb_vectors = [], settings = [] \<rparr>"

definition mk_chunk :: "uuid \<Rightarrow> uuid \<Rightarrow> int \<Rightarrow> string \<Rightarrow> document_chunk" where
  "mk_chunk i doc n st =
     \<lparr> c_id = i, c_document_id = doc, c_chunk_index = n, c_chunk_text = ''text'',
       c_chunk_size = None, c_ai_metadata = Some (JObj [(''topic'', JStr ''a'')]),
       c_confidence_score = None, c_review_status = st, c_curator_notes = None,
       c_reviewed_by = None, c_reviewed_at = None, c_is_filtered = False,
       c_filtered_reason = None, c_created_at = ''t0'', c_metadata_edited = False,
       c_metadata_edited_by = None, c_metadata_edited_at = None \<rparr>"

definition mk_document :: "uuid \<Rightarrow> string \<Rightarrow> int option \<Rightarrow> document" where
  "mk_document i st n =
     \<lparr> d_id = i, d_filename = ''f.pdf'', d_original_filename = ''f.pdf'', d_doc_type = ''fhir'',
       d_storage_path = ''documents/f.pdf'', d_file_size = None, d_mime_type = None,
       d_upload_date = ''t0'', d_uploaded_by = None, d_processing_status = st,
       d_total_chunks = n, d_approved_chunks = Some 0, d_rejected_chunks = Some 0,
       d_metadata = None, d_error_message = None \<rparr>"

text \<open>An \<^verbatim>\<open>approveChunk\<close> that returns without throwing and leaves the database alone.\<close>

definition approve_ok :: "uuid \<Rightarrow> json \<Rightarrow> uuid \<Rightarrow> db \<Rightarrow> thrown option \<times> db" where
  "approve_ok i notes reviewer d = (None, d)"

text \<open>A curator \<open>u1\<close> and one pending chunk \<open>c1\<close> of document \<open>d1\<close>.\<close>

definition curator_db :: db where
  "curator_db = (db_of (mk_profile ''u1'' ''curator'' True))
     \<lparr>document_chunks := [mk_chunk ''c1'' ''d1'' 0 ''pending'']\<rparr>"

text \<open>An upload of \<^verbatim>\<open>report.pdf\<close> as a \<^verbatim>\<open>fhir\<close> document, stored without failure as \<open>d1\<close>.\<close>

definition sample_env :: upload_env where
  "sample_env = \<lparr> ue_failure = None, ue_new_id = ''d1'', ue_filename = ''1-report.pdf'',
     ue_storage_path = ''documents/1-report.pdf'', ue_uploaded_by = Some ''u1'', ue_now = ''t1'' \<rparr>"

definition sample_file :: uploaded_file where
  "sample_file = \<lparr> f_name = ''report.pdf'', f_type = ''application/pdf'', f_size = 1024 \<rparr>"

definition sample_form :: upload_form where
  "sample_form = \<lparr> form_file = Some sample_file, form_title = Some ''Report'',
     form_documentType = Some ''fhir'', form_description = None \<rparr>"

text \<open>Every document's \<^verbatim>\<open>processing_status\<close> is one of the five of the schema.\<close>

definition statuses_valid :: "db \<Rightarrow> bool" where
  "statuses_valid d = list_all (\<lambda>x. d_processing_status x \<in> set processing_statuses) (documents d)"

text \<open>
  Whether the completion check succeeds for a document: its \<^verbatim>\<open>total_chunks\<close> is known
  and the count of terminal chunks has reached it. \<open>complete_doc\<close> is the update the
  trigger function then makes. \<open>review_db\<close> is a database of one document \<open>d1\<close> with
  \<open>n\<close> as its \<^verbatim>\<open>total_chunks\<close> and the two chunks \<open>c1\<close> and \<open>c2\<close>.
\<close>

definition completes :: "db \<Rightarrow> uuid \<Rightarrow> bool" where
  "completes d i = (case total_of d i of None \<Rightarrow> False | Some t \<Rightarrow> t \<le> reviewed_count d i)"

definition complete_doc :: "uuid \<Rightarrow> document list \<Rightarrow> document list" where
  "complete_doc i rs = map (\<lambda>r. if d_id r = i then r\<lparr>d_processing_status := ''completed''\<rparr> else r) rs"


definition review_db :: "int \<Rightarrow> string \<Rightarrow> string \<Rightarrow> string \<Rightarrow> db" where
  "review_db n st s1 s2 =
     \<lparr> profiles = [], documents = [mk_document ''d1'' st (Some n)],
       document_chunks = [mk_chunk ''c1'' ''d1'' 0 s1, mk_chunk ''c2'' ''d1'' 1 s2],
       kb_vectors = [], settings = [] \<rparr>"






section \<open>Properties of the role policy\<close>

lemma getCurrentUser_SomeD:
  "getCurrentUser ses d = Some u \<Longrightarrow>
     \<exists>usr. user ses = Some usr \<and> authError ses = None
           \<and> filter (\<lambda>p. p_id p = u_id usr) (profiles d) = [u]"
  unfolding getCurrentUser_def
  by (auto split: option.splits if_splits list.splits elim!: single.elims)

lemma hasRole_char:
  "getCurrentUser ses d = Some u \<Longrightarrow>
   hasRole ses d q = (p_is_active u = Some True \<and> (\<exists>r. p_role u = Some r \<and> satisfies_table r q))"
  unfolding hasRole_def satisfies_table_def by auto

lemma has_role_char:
  assumes "filter (\<lambda>p. p_id p = i) (profiles d) = [u]"
  shows "has_role d (Some i) (Some q) =
           (p_is_active u = Some True \<and> (\<exists>r. p_role u = Some r \<and> satisfies_table r q))"
proof -
  have "filter (\<lambda>p. Some (p_id p) = Some i \<and> p_is_active p = Some True) (profiles d)
        = filter (\<lambda>p. p_is_active p = Some True) (filter (\<lambda>p. p_id p = i) (profiles d))"
    by (simp add: conj_commute)
  then have f: "filter (\<lambda>p. Some (p_id p) = Some i \<and> p_is_active p = Some True) (profiles d)
        = (if p_is_active u = Some True then [u] else [])"
    using assms by simp
  show ?thesis
    unfolding has_role_def Let_def f satisfies_table_def by auto
qed

lemma getCurrentUser_session_of: "getCurrentUser (session_of p) (db_of p) = Some p"
  by (simp add: getCurrentUser_def session_of_def db_of_def)

text \<open>
  C1 (as amended). For a signed-in caller whose profile has role \<open>r\<close>: with both roles
  among user, curator and admin and the profile active, the check is the hierarchy table;
  with the profile not active it is false; with \<open>r\<close> not one of the three roles it is
  false; with the required role not one of the three it is true exactly for an active
  admin. The SQL function \<^verbatim>\<open>has_role\<close> gives the same answers.
\<close>

theorem role_check_hierarchy:
  "getCurrentUser ses d = Some u \<Longrightarrow> p_role u = Some r \<Longrightarrow>
     (r \<in> roles \<and> q \<in> roles \<and> p_is_active u = Some True \<longrightarrow> hasRole ses d q = satisfies_table r q)
   \<and> (p_is_active u \<noteq> Some True \<longrightarrow> \<not> hasRole ses d q)
   \<and> (r \<notin> roles \<longrightarrow> \<not> hasRole ses d q)
   \<and> (q \<notin> roles \<and> p_is_active u = Some True \<longrightarrow> hasRole ses d q = (r = ''admin''))
   \<and> (\<forall>usr. user ses = Some usr \<longrightarrow> has_role d (Some (u_id usr)) (Some q) = hasRole ses d q)"
proof -
  assume g: "getCurrentUser ses d = Some u" and r: "p_role u = Some r"
  from getCurrentUser_SomeD [OF g] obtain usr where
    usr: "user ses = Some usr" "filter (\<lambda>p. p_id p = u_id usr) (profiles d) = [u]" by blast
  have h: "hasRole ses d q = (p_is_active u = Some True \<and> satisfies_table r q)"
    using hasRole_char [OF g] r by simp
  have s: "has_role d (Some (u_id usr)) (Some q) = hasRole ses d q"
    using has_role_char [OF usr(2)] hasRole_char [OF g] by simp
  show ?thesis
    using h s usr(1) by (auto simp: satisfies_table_def roles_def)
qed

text \<open>
  The theorem at an active curator asked for user and for admin, at an inactive admin,
  at a profile whose role is not one of the three, and at an active admin asked for a
  role that is not one of the three.
\<close>

theorem role_check_hierarchy_witness:
  "getCurrentUser (session_of (mk_profile ''u1'' ''curator'' True)) (db_of (mk_profile ''u1'' ''curator'' True))
     = Some (mk_profile ''u1'' ''curator'' True)
   \<and> p_role (mk_profile ''u1'' ''curator'' True) = Some ''curator''
   \<and> ''curator'' \<in> roles \<and> ''user'' \<in> roles \<and> ''admin'' \<in> roles
   \<and> hasRole (session_of (mk_profile ''u1'' ''curator'' True)) (db_of (mk_profile ''u1'' ''curator'' True)) ''user''
   \<and> \<not> hasRole (session_of (mk_profile ''u1'' ''curator'' True)) (db_of (mk_profile ''u1'' ''curator'' True)) ''admin''
   \<and> has_role (db_of (mk_profile ''u1'' ''curator'' True)) (Some ''u1'') (Some ''user'')
   \<and> p_is_active (mk_profile ''u2'' ''admin'' False) \<noteq> Some True
   \<and> \<not> hasRole (session_of (mk_profile ''u2'' ''admin'' False)) (db_of (mk_profile ''u2'' ''admin'' False)) ''user''
   \<and> ''guest'' \<notin> roles
   \<and> \<not> hasRole (session_of (mk_profile ''u3'' ''guest'' True)) (db_of (mk_profile ''u3'' ''guest'' True)) ''user''
   \<and> hasRole (session_of (mk_profile ''u4'' ''admin'' True)) (db_of (mk_profile ''u4'' ''admin'' True)) ''guest''"
proof -
  have r: "p_role (mk_profile i x a) = Some x" for i x a
    by (simp add: mk_profile_def)
  have a: "p_is_active (mk_profile i x b) = Some b" for i x b
    by (simp add: mk_profile_def)
  have u: "user (session_of (mk_profile i x b))
             = Some \<lparr> u_id = i, u_email = Some ''a@example.org'', u_raw_user_meta_data = None \<rparr>" for i x b
    by (simp add: session_of_def mk_profile_def)
  show ?thesis
    using role_check_hierarchy [of "session_of (mk_profile ''u1'' ''curator'' True)" "db_of (mk_profile ''u1'' ''curator'' True)" "mk_profile ''u1'' ''curator'' True" "''curator''" "''user''"]
      role_check_hierarchy [of "session_of (mk_profile ''u1'' ''curator'' True)" "db_of (mk_profile ''u1'' ''curator'' True)" "mk_profile ''u1'' ''curator'' True" "''curator''" "''admin''"]
      role_check_hierarchy [of "session_of (mk_profile ''u2'' ''admin'' False)" "db_of (mk_profile ''u2'' ''admin'' False)" "mk_profile ''u2'' ''admin'' False" "''admin''" "''user''"]
      role_check_hierarchy [of "session_of (mk_profile ''u3'' ''guest'' True)" "db_of (mk_profile ''u3'' ''guest'' True)" "mk_profile ''u3'' ''guest'' True" "''guest''" "''user''"]
      role_check_hierarchy [of "session_of (mk_profile ''u4'' ''admin'' True)" "db_of (mk_profile ''u4'' ''admin'' True)" "mk_profile ''u4'' ''admin'' True" "''admin''" "''guest''"]
    by (simp add: getCurrentUser_session_of r a u roles_def satisfies_table_def)
qed

text \<open>
  C1 as stated fails: \<open>superuser\<close> is not a role, and the check of an active admin for it
  is true, in the helper and in the SQL function alike.
\<close>

theorem role_check_unrecognized_counterexample:
  "''superuser'' \<notin> roles
   \<and> hasRole (session_of (mk_profile ''u1'' ''admin'' True)) (db_of (mk_profile ''u1'' ''admin'' True)) ''superuser''
   \<and> has_role (db_of (mk_profile ''u1'' ''admin'' True)) (Some ''u1'') (Some ''superuser'')"
proof -
  have "hasRole (session_of (mk_profile ''u1'' ''admin'' True)) (db_of (mk_profile ''u1'' ''admin'' True)) ''superuser''"
    by (simp add: hasRole_def getCurrentUser_session_of mk_profile_def)
  moreover have "has_role (db_of (mk_profile ''u1'' ''admin'' True)) (Some ''u1'') (Some ''superuser'')"
    by (simp add: has_role_def db_of_def mk_profile_def)
  ultimately show ?thesis
    by (simp add: roles_def)
qed

section \<open>Properties of the profile mutations\<close>

lemma update_profiles_cases:
  "update_profiles fault f i d = Inr d' \<Longrightarrow>
     d' = d\<lparr>profiles := map (\<lambda>p. if p_id p = i then f p else p) (profiles d)\<rparr>"
  unfolding update_profiles_def Let_def by (auto split: option.splits if_splits)

text \<open>
  C4 (as amended). \<^verbatim>\<open>updateUserRole\<close> and \<^verbatim>\<open>setUserActiveStatus\<close> fail with their
  authorization error whenever the caller has no profile or a role other than admin.
  For an admin whose id is the target, \<^verbatim>\<open>updateUserRole\<close> fails with the
  self-modification error, and \<^verbatim>\<open>setUserActiveStatus\<close> does when the new value
  deactivates; so both fail whenever the caller is the target (the second when
  deactivating). Every failure leaves the database as it was, and a success has stamped
  \<^verbatim>\<open>updated_at\<close>, with the new value, on exactly the rows of the target id.
\<close>

theorem profile_mutation_guards:
  "((\<forall>cu. getCurrentUser ses d = Some cu \<longrightarrow> p_role cu \<noteq> Some ''admin'') \<longrightarrow>
       updateUserRole ses fault now userId newRole d = (failed ''Only admins can change user roles'', d)
     \<and> setUserActiveStatus ses fault now userId isActive d = (failed ''Only admins can change user status'', d))
   \<and> (\<forall>cu. getCurrentUser ses d = Some cu \<and> p_role cu = Some ''admin'' \<and> p_id cu = userId \<longrightarrow>
         updateUserRole ses fault now userId newRole d = (failed ''Cannot change your own role'', d)
       \<and> (\<not> isActive \<longrightarrow>
            setUserActiveStatus ses fault now userId isActive d = (failed ''Cannot deactivate your own account'', d)))
   \<and> (\<forall>cu. getCurrentUser ses d = Some cu \<and> p_id cu = userId \<longrightarrow>
         \<not> success (fst (updateUserRole ses fault now userId newRole d))
       \<and> (\<not> isActive \<longrightarrow> \<not> success (fst (setUserActiveStatus ses fault now userId isActive d))))
   \<and> (\<not> success (fst (updateUserRole ses fault now userId newRole d)) \<longrightarrow>
         snd (updateUserRole ses fault now userId newRole d) = d)
   \<and> (\<not> success (fst (setUserActiveStatus ses fault now userId isActive d)) \<longrightarrow>
         snd (setUserActiveStatus ses fault now userId isActive d) = d)
   \<and> (success (fst (updateUserRole ses fault now userId newRole d)) \<longrightarrow>
         snd (updateUserRole ses fault now userId newRole d) =
           d\<lparr>profiles := map (\<lambda>p. if p_id p = userId
                                     then p\<lparr>p_role := Some newRole, p_updated_at := Some now\<rparr> else p)
                               (profiles d)\<rparr>)
   \<and> (success (fst (setUserActiveStatus ses fault now userId isActive d)) \<longrightarrow>
         snd (setUserActiveStatus ses fault now userId isActive d) =
           d\<lparr>profiles := map (\<lambda>p. if p_id p = userId
                                     then p\<lparr>p_is_active := Some isActive, p_updated_at := Some now\<rparr> else p)
                               (profiles d)\<rparr>)"
  unfolding updateUserRole_def setUserActiveStatus_def
  by (auto simp: failed_def succeeded_def split: option.splits sum.splits dest!: update_profiles_cases)

lemma getCurrentUser_db_with:
  "filter (\<lambda>q. p_id q = p_id p) ps = [p] \<Longrightarrow> getCurrentUser (session_of p) (db_with ps) = Some p"
  by (simp add: getCurrentUser_def session_of_def db_with_def)

text \<open>
  The theorem in a database of an admin \<open>u1\<close>, a user \<open>u2\<close> and a curator \<open>u3\<close>: the
  curator is refused, the admin is refused on itself, the admin promotes \<open>u2\<close>, and a
  failure of the store leaves the table as it was.
\<close>

theorem profile_mutation_guards_witness:
  "getCurrentUser (session_of (mk_profile ''u3'' ''curator'' True))
       (db_with [mk_profile ''u1'' ''admin'' True, mk_profile ''u2'' ''user'' True, mk_profile ''u3'' ''curator'' True])
     = Some (mk_profile ''u3'' ''curator'' True)
   \<and> p_role (mk_profile ''u3'' ''curator'' True) \<noteq> Some ''admin''
   \<and> updateUserRole (session_of (mk_profile ''u3'' ''curator'' True)) None ''t1'' ''u2'' ''admin''
       (db_with [mk_profile ''u1'' ''admin'' True, mk_profile ''u2'' ''user'' True, mk_profile ''u3'' ''curator'' True])
     = (failed ''Only admins can change user roles'',
        db_with [mk_profile ''u1'' ''admin'' True, mk_profile ''u2'' ''user'' True, mk_profile ''u3'' ''curator'' True])
   \<and> getCurrentUser (session_of (mk_profile ''u1'' ''admin'' True))
       (db_with [mk_profile ''u1'' ''admin'' True, mk_profile ''u2'' ''user'' True, mk_profile ''u3'' ''curator'' True])
     = Some (mk_profile ''u1'' ''admin'' True)
   \<and> p_role (mk_profile ''u1'' ''admin'' True) = Some ''admin''
   \<and> p_id (mk_profile ''u1'' ''admin'' True) = ''u1''
   \<and> updateUserRole (session_of (mk_profile ''u1'' ''admin'' True)) None ''t1'' ''u1'' ''user''
       (db_with [mk_profile ''u1'' ''admin'' True, mk_profile ''u2'' ''user'' True, mk_profile ''u3'' ''curator'' True])
     = (failed ''Cannot change your own role'',
        db_with [mk_profile ''u1'' ''admin'' True, mk_profile ''u2'' ''user'' True, mk_profile ''u3'' ''curator'' True])
   \<and> setUserActiveStatus (session_of (mk_profile ''u1'' ''admin'' True)) None ''t1'' ''u1'' False
       (db_with [mk_profile ''u1'' ''admin'' True, mk_profile ''u2'' ''user'' True, mk_profile ''u3'' ''curator'' True])
     = (failed ''Cannot deactivate your own account'',
        db_with [mk_profile ''u1'' ''admin'' True, mk_profile ''u2'' ''user'' True, mk_profile ''u3'' ''curator'' True])
   \<and> success (fst (updateUserRole (session_of (mk_profile ''u1'' ''admin'' True)) None ''t1'' ''u2'' ''curator''
       (db_with [mk_profile ''u1'' ''admin'' True, mk_profile ''u2'' ''user'' True, mk_profile ''u3'' ''curator'' True])))
   \<and> snd (updateUserRole (session_of (mk_profile ''u1'' ''admin'' True)) None ''t1'' ''u2'' ''curator''
       (db_with [mk_profile ''u1'' ''admin'' True, mk_profile ''u2'' ''user'' True, mk_profile ''u3'' ''curator'' True]))
     = db_with [mk_profile ''u1'' ''admin'' True,
                (mk_profile ''u2'' ''curator'' True)\<lparr>p_updated_at := Some ''t1''\<rparr>,
                mk_profile ''u3'' ''curator'' True]
   \<and> \<not> success (fst (setUserActiveStatus (session_of (mk_profile ''u1'' ''admin'' True)) (Some ''timeout'') ''t1'' ''u2'' False
       (db_with [mk_profile ''u1'' ''admin'' True, mk_profile ''u2'' ''user'' True, mk_profile ''u3'' ''curator'' True])))
   \<and> snd (setUserActiveStatus (session_of (mk_profile ''u1'' ''admin'' True)) (Some ''timeout'') ''t1'' ''u2'' False
       (db_with [mk_profile ''u1'' ''admin'' True, mk_profile ''u2'' ''user'' True, mk_profile ''u3'' ''curator'' True]))
     = db_with [mk_profile ''u1'' ''admin'' True, mk_profile ''u2'' ''user'' True, mk_profile ''u3'' ''curator'' True]"
proof -
  let ?A = "mk_profile ''u1'' ''admin'' True"
  let ?C = "mk_profile ''u3'' ''curator'' True"
  let ?D = "db_with [mk_profile ''u1'' ''admin'' True, mk_profile ''u2'' ''user'' True, mk_profile ''u3'' ''curator'' True]"
  have gC: "getCurrentUser (session_of ?C) ?D = Some ?C"
    by (rule getCurrentUser_db_with) (simp add: mk_profile_def)
  have gA: "getCurrentUser (session_of ?A) ?D = Some ?A"
    by (rule getCurrentUser_db_with) (simp add: mk_profile_def)
  have ok: "success (fst (updateUserRole (session_of ?A) None ''t1'' ''u2'' ''curator'' ?D))"
    by (simp add: updateUserRole_def gA)
      (simp add: mk_profile_def update_profiles_def db_with_def profile_check_def succeeded_def)
  have ko: "\<not> success (fst (setUserActiveStatus (session_of ?A) (Some ''timeout'') ''t1'' ''u2'' False ?D))"
    by (simp add: setUserActiveStatus_def gA)
      (simp add: mk_profile_def update_profiles_def failed_def)
  show ?thesis
    using profile_mutation_guards [of "session_of ?C" ?D None "''t1''" "''u2''" "''admin''" False]
      profile_mutation_guards [of "session_of ?A" ?D None "''t1''" "''u1''" "''user''" False]
      profile_mutation_guards [of "session_of ?A" ?D None "''t1''" "''u2''" "''curator''" False]
      profile_mutation_guards [of "session_of ?A" ?D "Some ''timeout''" "''t1''" "''u2''" "''curator''" False]
      ok ko
    by (simp add: gA gC) (simp add: mk_profile_def db_with_def)
qed

text \<open>
  C4 as stated fails: a curator whose id is the target of \<^verbatim>\<open>updateUserRole\<close> is
  refused with the authorization error, not with the self-modification error.
\<close>

theorem updateUserRole_self_counterexample:
  "p_id (mk_profile ''u3'' ''curator'' True) = ''u3''
   \<and> error (fst (updateUserRole (session_of (mk_profile ''u3'' ''curator'' True)) None ''t1'' ''u3'' ''admin''
                  (db_of (mk_profile ''u3'' ''curator'' True))))
       = Some ''Only admins can change user roles''
   \<and> error (fst (updateUserRole (session_of (mk_profile ''u3'' ''curator'' True)) None ''t1'' ''u3'' ''admin''
                  (db_of (mk_profile ''u3'' ''curator'' True))))
       \<noteq> Some ''Cannot change your own role''"
  by (simp add: updateUserRole_def getCurrentUser_session_of) (simp add: mk_profile_def failed_def)

section \<open>Properties of the review handler\<close>

lemma session_user_session_of:
  "session_user (session_of p)
     = Some \<lparr> u_id = p_id p, u_email = Some (p_email p), u_raw_user_meta_data = None \<rparr>"
  by (simp add: session_user_def session_of_def)

lemma profile_of_db_of: "u_id u = p_id p \<Longrightarrow> profile_of u (db_of p) = Some p"
  by (simp add: profile_of_def db_of_def)

text \<open>What the handler does hold to: the three gates before the operation is called.\<close>

lemma review_POST_gates:
  "(session_user ses = None \<longrightarrow> review_POST ap rj ses i rq d = (unauthorized, d))
   \<and> (\<forall>u. session_user ses = Some u \<and> not_curator_or_admin (profile_of u d) \<longrightarrow>
          review_POST ap rj ses i rq d = (insufficient_permissions, d))
   \<and> (\<forall>u b action notes.
          session_user ses = Some u \<and> \<not> not_curator_or_admin (profile_of u d) \<and> rq = Ok b
          \<and> body_member b ''action'' = Ok action \<and> body_member b ''notes'' = Ok notes
          \<and> action \<noteq> Some (JStr ''approve'') \<and> action \<noteq> Some (JStr ''reject'') \<longrightarrow>
          review_POST ap rj ses i rq d =
            (json_response [(''error'', JStr ''Invalid action. Must be approve or reject'')] 400, d))"
  by (simp add: review_POST_def review_action_def)

text \<open>
  C5, at the input where the code departs from it. The caller is signed in, the profile
  has role curator and \<^verbatim>\<open>is_active = false\<close>, the body asks to approve. Whatever
  \<^verbatim>\<open>approveChunk\<close> and \<^verbatim>\<open>rejectChunk\<close> are, the answer is not 403; with an
  \<^verbatim>\<open>approveChunk\<close> that returns, it is the 200 of a successful approval.
\<close>

theorem review_POST_inactive_curator:
  "p_is_active (mk_profile ''u1'' ''curator'' False) = Some False
   \<and> status (fst (review_POST ap rj (session_of (mk_profile ''u1'' ''curator'' False)) ''c1''
        (Ok (JObj [(''action'', JStr ''approve'')])) (db_of (mk_profile ''u1'' ''curator'' False)))) \<noteq> 403
   \<and> review_POST approve_ok rj (session_of (mk_profile ''u1'' ''curator'' False)) ''c1''
        (Ok (JObj [(''action'', JStr ''approve'')])) (db_of (mk_profile ''u1'' ''curator'' False))
      = (json_response [(''success'', JBool True), (''message'', JStr ''Chunk approved successfully'')] 200,
         db_of (mk_profile ''u1'' ''curator'' False))"
  by (simp add: review_POST_def session_user_session_of profile_of_db_of not_curator_or_admin_def
        body_member_def obj_get_def review_action_def approve_ok_def json_response_def mk_profile_def
        notes_or_empty_def
      split: prod.splits option.splits)

section \<open>Properties of the settings handlers\<close>

text \<open>
  C8, at the input where the code departs from it. An active admin posts a valid provider
  together with a document processor that is not one of the two: the answer is 400, and
  the row \<^verbatim>\<open>ai_provider\<close> has been written all the same.
\<close>

theorem settings_POST_partial_persist:
  "settings_POST None None ''t1'' ''t2'' (session_of (mk_profile ''u1'' ''admin'' True))
      (Ok (JObj [(''provider'', JStr ''openai''), (''documentProcessor'', JStr ''bogus'')]))
      (db_of (mk_profile ''u1'' ''admin'' True))
   = (json_response [(''error'', JStr ''Invalid document processor'')] 400,
      (db_of (mk_profile ''u1'' ''admin'' True))
        \<lparr>settings := [\<lparr> s_key = ''ai_provider'', s_value = JObj [(''provider'', JStr ''openai'')],
                        s_updated_at = Some ''t1'', s_updated_by = Some ''u1'' \<rparr>]\<rparr>)"
  by (simp add: settings_POST_def session_of_def not_admin_def body_member_def obj_get_def
        persist_settings_def handle_ai_provider_def handle_document_processor_def upsert_setting_def
        db_of_def mk_profile_def profile_of_def)

text \<open>The handler does not look at \<^verbatim>\<open>is_active\<close>: an admin who is not active is served.\<close>

lemma settings_POST_inactive_admin:
  "fst (settings_POST None None ''t1'' ''t2'' (session_of (mk_profile ''u1'' ''admin'' False))
      (Ok (JObj [(''provider'', JStr ''openai'')]))
      (db_of (mk_profile ''u1'' ''admin'' False)))
   = json_response [(''success'', JBool True), (''provider'', JStr ''openai'')] 200"
  by (simp add: settings_POST_def session_of_def not_admin_def body_member_def obj_get_def
        persist_settings_def handle_ai_provider_def handle_document_processor_def upsert_setting_def
        db_of_def mk_profile_def profile_of_def optional_member_def)

text \<open>What the handler does hold to.\<close>

lemma settings_POST_gates:
  "(user ses = None \<longrightarrow> settings_POST pe ce now1 now2 ses rq d = (unauthorized, d))
   \<and> (\<forall>u. user ses = Some u \<and> not_admin (profile_of u d) \<longrightarrow>
          settings_POST pe ce now1 now2 ses rq d = (json_response [(''error'', JStr ''Forbidden'')] 403, d))
   \<and> (\<forall>u b pv dp.
          user ses = Some u \<and> \<not> not_admin (profile_of u d) \<and> rq = Ok b
          \<and> body_member b ''provider'' = Ok (Some pv) \<and> body_member b ''documentProcessor'' = Ok dp
          \<and> pv \<noteq> JStr ''gemini'' \<and> pv \<noteq> JStr ''openai'' \<longrightarrow>
          settings_POST pe ce now1 now2 ses rq d =
            (json_response [(''error'', JStr ''Invalid AI provider'')] 400, d))"
  by (simp add: settings_POST_def persist_settings_def handle_ai_provider_def)

section \<open>Properties of the metadata handler\<close>

lemma map_of_obj_put: "map_of (obj_put (k, v) kvs) = (map_of kvs)(k \<mapsto> v)"
  by (induction kvs) (auto simp: fun_eq_iff)

lemma fst_obj_put: "set (map fst (obj_put kv kvs)) = insert (fst kv) (set (map fst kvs))"
  by (induction kv kvs rule: obj_put.induct) auto

lemma distinct_obj_put: "distinct (map fst kvs) \<Longrightarrow> distinct (map fst (obj_put kv kvs))"
proof (induction kv kvs rule: obj_put.induct)
  case (1 k v)
  then show ?case by simp
next
  case (2 k v k' v' kvs)
  then show ?case
    using fst_obj_put [of "(k, v)" kvs] by auto
qed

lemma distinct_fold_obj_put:
  "distinct (map fst acc) \<Longrightarrow> distinct (map fst (fold obj_put kvs acc))"
  by (induction kvs arbitrary: acc) (auto simp: distinct_obj_put)

lemma map_of_fold_obj_put:
  "map_of (fold obj_put kvs acc) = map_of acc ++ map_of (rev kvs)"
proof (induction kvs arbitrary: acc)
  case Nil
  then show ?case by simp
next
  case (Cons kv kvs)
  obtain k v where kv: "kv = (k, v)" by (cases kv)
  have "map_of (fold obj_put (kv # kvs) acc) = map_of (obj_put (k, v) acc) ++ map_of (rev kvs)"
    using Cons.IH kv by simp
  also have "\<dots> = map_of acc ++ ([k \<mapsto> v] ++ map_of (rev kvs))"
    by (simp add: map_of_obj_put fun_eq_iff map_add_def split: option.splits)
  also have "\<dots> = map_of acc ++ map_of (rev (kv # kvs))"
    by (simp add: kv map_of_append)
  finally show ?case .
qed

lemma map_of_rev_distinct: "distinct (map fst kvs) \<Longrightarrow> map_of (rev kvs) = map_of kvs"
  by (simp add: distinct_map map_of_inject_set distinct_rev rev_map[symmetric] del: rev_map)

lemma merge_metadata_get:
  assumes "metadata = JObj kvs"
  shows "obj_get (merge_metadata current metadata now) k =
     (if k = ''last_updated'' then Some (JStr now)
      else case obj_get (js_spread metadata) k of
             Some v \<Rightarrow> Some v
           | None \<Rightarrow> obj_get (case current of None \<Rightarrow> [] | Some j \<Rightarrow> js_spread j) k)"
proof -
  define base where "base = (case current of None \<Rightarrow> [] | Some j \<Rightarrow> js_spread j)"
  have d: "distinct (map fst (js_spread metadata))"
    using assms by (simp add: distinct_fold_obj_put)
  have r: "map_of (rev (js_spread metadata)) = map_of (js_spread metadata)"
    by (rule map_of_rev_distinct [OF d])
  have "map_of (merge_metadata current metadata now)
        = map_of base ++ map_of (rev (js_spread metadata @ [(''last_updated'', JStr now)]))"
    unfolding merge_metadata_def base_def by (rule map_of_fold_obj_put)
  also have "\<dots> = (map_of base ++ map_of (js_spread metadata))(''last_updated'' \<mapsto> JStr now)"
    using r by simp
  finally show ?thesis
    unfolding obj_get_def base_def [symmetric]
    by (simp add: map_add_def split: option.splits)
qed

text \<open>
  C9 (as amended). For a signed-in caller whose role is curator or admin and a body whose
  \<^verbatim>\<open>metadata\<close> is an object: when exactly one chunk has the id and the store does not
  fail, the answer is 200 and the chunk's \<^verbatim>\<open>ai_metadata\<close> becomes the merge,
  \<^verbatim>\<open>metadata_edited\<close> true, \<^verbatim>\<open>metadata_edited_by\<close> the caller and
  \<^verbatim>\<open>metadata_edited_at\<close> the time, nothing else in the database changing, so that
  review status, notes, reviewer and review time of every chunk are as before. In the
  merge the key \<^verbatim>\<open>last_updated\<close> holds the time of the edit; every other key holds the
  supplied value if one was supplied and the existing value otherwise. When no chunk has
  the id the answer is 404 and the database is as it was.
\<close>

theorem metadata_PUT_merge:
  assumes "session_user ses = Some u"
    and "\<not> not_curator_or_admin (profile_of u d)"
    and "body_member b ''metadata'' = Ok (Some (JObj kvs))"
  shows
   "(filter (\<lambda>x. c_id x = i) (document_chunks d) = [c] \<longrightarrow>
       metadata_PUT False False now1 now2 ses i (Ok b) d =
         (json_response [(''success'', JBool True),
                         (''message'', JStr ''Metadata updated successfully''),
                         (''metadata'', JObj (merge_metadata (c_ai_metadata c) (JObj kvs) now1))] 200,
          d\<lparr>document_chunks :=
              map (\<lambda>x. if c_id x = i
                        then x\<lparr>c_ai_metadata := Some (JObj (merge_metadata (c_ai_metadata c) (JObj kvs) now1)),
                               c_metadata_edited := True,
                               c_metadata_edited_by := Some (u_id u),
                               c_metadata_edited_at := Some now2\<rparr>
                        else x)
                  (document_chunks d)\<rparr>)
     \<and> map c_review_status (document_chunks (snd (metadata_PUT False False now1 now2 ses i (Ok b) d)))
         = map c_review_status (document_chunks d)
     \<and> map c_curator_notes (document_chunks (snd (metadata_PUT False False now1 now2 ses i (Ok b) d)))
         = map c_curator_notes (document_chunks d)
     \<and> map c_reviewed_by (document_chunks (snd (metadata_PUT False False now1 now2 ses i (Ok b) d)))
         = map c_reviewed_by (document_chunks d)
     \<and> map c_reviewed_at (document_chunks (snd (metadata_PUT False False now1 now2 ses i (Ok b) d)))
         = map c_reviewed_at (document_chunks d))
    \<and> (\<forall>k. obj_get (merge_metadata cur (JObj kvs) now1) k =
           (if k = ''last_updated'' then Some (JStr now1)
            else case obj_get (js_spread (JObj kvs)) k of
                   Some v \<Rightarrow> Some v
                 | None \<Rightarrow> obj_get (case cur of None \<Rightarrow> [] | Some j \<Rightarrow> js_spread j) k))
    \<and> (filter (\<lambda>x. c_id x = i) (document_chunks d) = [] \<longrightarrow>
         metadata_PUT fetchError updateError now1 now2 ses i (Ok b) d =
           (json_response [(''error'', JStr ''Chunk not found'')] 404, d))"
proof -
  have pre: "metadata_PUT fe ue now1 now2 ses i (Ok b) d
             = edit_chunk_metadata fe ue now1 now2 u i (JObj kvs) d" for fe ue
    using assms by (simp add: metadata_PUT_def)
  have found: "filter (\<lambda>x. c_id x = i) (document_chunks d) = [c] \<Longrightarrow>
      edit_chunk_metadata False False now1 now2 u i (JObj kvs) d =
         (json_response [(''success'', JBool True),
                         (''message'', JStr ''Metadata updated successfully''),
                         (''metadata'', JObj (merge_metadata (c_ai_metadata c) (JObj kvs) now1))] 200,
          d\<lparr>document_chunks :=
              map (\<lambda>x. if c_id x = i
                        then x\<lparr>c_ai_metadata := Some (JObj (merge_metadata (c_ai_metadata c) (JObj kvs) now1)),
                               c_metadata_edited := True,
                               c_metadata_edited_by := Some (u_id u),
                               c_metadata_edited_at := Some now2\<rparr>
                        else x)
                  (document_chunks d)\<rparr>)"
    by (simp add: edit_chunk_metadata_def Let_def)
  have missing: "filter (\<lambda>x. c_id x = i) (document_chunks d) = [] \<Longrightarrow>
      edit_chunk_metadata fetchError updateError now1 now2 u i (JObj kvs) d =
         (json_response [(''error'', JStr ''Chunk not found'')] 404, d)"
    by (simp add: edit_chunk_metadata_def)
  have keys: "\<forall>k. obj_get (merge_metadata cur (JObj kvs) now1) k =
           (if k = ''last_updated'' then Some (JStr now1)
            else case obj_get (js_spread (JObj kvs)) k of
                   Some v \<Rightarrow> Some v
                 | None \<Rightarrow> obj_get (case cur of None \<Rightarrow> [] | Some j \<Rightarrow> js_spread j) k)"
    using merge_metadata_get [OF refl] by blast
  have frame: "map f (map (\<lambda>x. if c_id x = i then g x else x) xs) = map f xs"
    if "\<And>x. f (g x) = f x" for f :: "document_chunk \<Rightarrow> 'b" and g xs
    using that by (induction xs) auto
  show ?thesis
    using keys by (auto simp: pre found missing frame)
qed

text \<open>
  The theorem at the curator \<open>u1\<close> and the pending chunk \<open>c1\<close>, whose metadata is
  \<^verbatim>\<open>{topic: "a"}\<close>: a body that supplies \<^verbatim>\<open>subtopic\<close> is merged in, the review status
  stays \<^verbatim>\<open>pending\<close>; for the unknown id \<open>c9\<close> the answer is 404.
\<close>

theorem metadata_PUT_merge_witness:
  "session_user (session_of (mk_profile ''u1'' ''curator'' True))
     = Some \<lparr> u_id = ''u1'', u_email = Some ''a@example.org'', u_raw_user_meta_data = None \<rparr>
   \<and> \<not> not_curator_or_admin
         (profile_of \<lparr> u_id = ''u1'', u_email = Some ''a@example.org'', u_raw_user_meta_data = None \<rparr> curator_db)
   \<and> body_member (JObj [(''metadata'', JObj [(''subtopic'', JStr ''s'')])]) ''metadata''
       = Ok (Some (JObj [(''subtopic'', JStr ''s'')]))
   \<and> filter (\<lambda>x. c_id x = ''c1'') (document_chunks curator_db) = [mk_chunk ''c1'' ''d1'' 0 ''pending'']
   \<and> map c_ai_metadata (document_chunks (snd (metadata_PUT False False ''t1'' ''t2''
          (session_of (mk_profile ''u1'' ''curator'' True)) ''c1''
          (Ok (JObj [(''metadata'', JObj [(''subtopic'', JStr ''s'')])])) curator_db)))
       = [Some (JObj [(''topic'', JStr ''a''), (''subtopic'', JStr ''s''), (''last_updated'', JStr ''t1'')])]
   \<and> map c_review_status (document_chunks (snd (metadata_PUT False False ''t1'' ''t2''
          (session_of (mk_profile ''u1'' ''curator'' True)) ''c1''
          (Ok (JObj [(''metadata'', JObj [(''subtopic'', JStr ''s'')])])) curator_db)))
       = [''pending'']
   \<and> filter (\<lambda>x. c_id x = ''c9'') (document_chunks curator_db) = []
   \<and> metadata_PUT False False ''t1'' ''t2'' (session_of (mk_profile ''u1'' ''curator'' True)) ''c9''
          (Ok (JObj [(''metadata'', JObj [(''subtopic'', JStr ''s'')])])) curator_db
       = (json_response [(''error'', JStr ''Chunk not found'')] 404, curator_db)"
proof -
  have h1: "session_user (session_of (mk_profile ''u1'' ''curator'' True))
     = Some \<lparr> u_id = ''u1'', u_email = Some ''a@example.org'', u_raw_user_meta_data = None \<rparr>"
    by (simp add: session_user_session_of mk_profile_def)
  have h2: "\<not> not_curator_or_admin
         (profile_of \<lparr> u_id = ''u1'', u_email = Some ''a@example.org'', u_raw_user_meta_data = None \<rparr> curator_db)"
    by (simp add: not_curator_or_admin_def profile_of_def curator_db_def db_of_def mk_profile_def)
  have h3: "body_member (JObj [(''metadata'', JObj [(''subtopic'', JStr ''s'')])]) ''metadata''
       = Ok (Some (JObj [(''subtopic'', JStr ''s'')]))"
    by (simp add: body_member_def obj_get_def)
  have f1: "filter (\<lambda>x. c_id x = ''c1'') (document_chunks curator_db) = [mk_chunk ''c1'' ''d1'' 0 ''pending'']"
    by (simp add: curator_db_def mk_chunk_def)
  have f9: "filter (\<lambda>x. c_id x = ''c9'') (document_chunks curator_db) = []"
    by (simp add: curator_db_def mk_chunk_def)
  have m: "merge_metadata (c_ai_metadata (mk_chunk ''c1'' ''d1'' 0 ''pending''))
             (JObj [(''subtopic'', JStr ''s'')]) ''t1''
           = [(''topic'', JStr ''a''), (''subtopic'', JStr ''s''), (''last_updated'', JStr ''t1'')]"
    by (simp add: merge_metadata_def mk_chunk_def)
  note t = metadata_PUT_merge [OF h1 h2 h3]
  show ?thesis
    using t [where i = "''c1''" and c = "mk_chunk ''c1'' ''d1'' 0 ''pending''"
               and ?now1.0 = "''t1''" and ?now2.0 = "''t2''"]
      t [where i = "''c9''" and ?now1.0 = "''t1''" and ?now2.0 = "''t2''"
               and fetchError = False and updateError = False]
    by (simp add: h1 h2 h3 f1 f9 m) (simp add: curator_db_def mk_chunk_def merge_metadata_def)
qed

text \<open>
  C9 as stated fails. A body that supplies only \<^verbatim>\<open>topic\<close> leaves the stored metadata
  with a key \<^verbatim>\<open>last_updated\<close> that neither the chunk nor the body had; and a body
  that supplies \<^verbatim>\<open>last_updated: "x"\<close> finds the time of the edit stored under that
  key, not the supplied value.
\<close>

theorem metadata_PUT_last_updated_counterexample:
  "map c_ai_metadata (document_chunks (snd (metadata_PUT False False ''t1'' ''t2''
          (session_of (mk_profile ''u1'' ''curator'' True)) ''c1''
          (Ok (JObj [(''metadata'', JObj [(''topic'', JStr ''b'')])])) curator_db)))
       = [Some (JObj [(''topic'', JStr ''b''), (''last_updated'', JStr ''t1'')])]
   \<and> obj_get (js_spread (JObj [(''last_updated'', JStr ''x'')])) ''last_updated'' = Some (JStr ''x'')
   \<and> map c_ai_metadata (document_chunks (snd (metadata_PUT False False ''t1'' ''t2''
          (session_of (mk_profile ''u1'' ''curator'' True)) ''c1''
          (Ok (JObj [(''metadata'', JObj [(''last_updated'', JStr ''x'')])])) curator_db)))
       = [Some (JObj [(''topic'', JStr ''a''), (''last_updated'', JStr ''t1'')])]"
  by (simp add: metadata_PUT_def session_user_session_of body_member_def obj_get_def
        not_curator_or_admin_def profile_of_def curator_db_def db_of_def mk_profile_def
        edit_chunk_metadata_def mk_chunk_def merge_metadata_def Let_def)

section \<open>Properties of the upload handler\<close>

text \<open>
  The update the handler issues never lands: it names three columns the table does not
  have. The error is all that comes of it.
\<close>

lemma handler_update_rejected:
  "fst (update_documents fault (metadata_payload t dt descr) i d) \<noteq> None
   \<and> snd (update_documents fault (metadata_payload t dt descr) i d) = d"
  by (simp add: update_documents_def metadata_payload_def documents_columns_def split: option.splits)

lemma handler_update_rejectedD:
  "update_documents fault (metadata_payload t dt descr) i d = (e, d') \<Longrightarrow> (\<exists>m. e = Some m) \<and> d' = d"
  using handler_update_rejected [of fault t dt descr i d] by auto

text \<open>Nor would the status it asks for: the CHECK of the table refuses \<^verbatim>\<open>draft\<close>.\<close>

lemma draft_rows:
  "update_document_rows [(''processing_status'', JStr ''draft'')] i rs
     = (if list_ex (\<lambda>r. d_id r = i) rs then None else Some rs)"
  by (induction rs) (auto simp: set_document_column_def documents_check_def processing_statuses_def)

lemma draft_rejected:
  "snd (update_documents fault [(''processing_status'', JStr ''draft'')] i d) = d"
  by (simp add: update_documents_def draft_rows split: option.splits)

lemma update_rows_valid:
  "update_document_rows pl i rs = Some rs' \<Longrightarrow>
   list_all (\<lambda>x. d_processing_status x \<in> set processing_statuses) rs \<Longrightarrow>
   list_all (\<lambda>x. d_processing_status x \<in> set processing_statuses) rs'"
proof (induction rs arbitrary: rs')
  case Nil
  then show ?case by simp
next
  case (Cons r rs)
  then show ?case
    by (auto simp: documents_check_def split: if_splits option.splits)
qed

lemma update_documents_valid:
  "statuses_valid d \<Longrightarrow> statuses_valid (snd (update_documents fault pl i d))"
  unfolding statuses_valid_def update_documents_def
  by (auto split: option.splits dest: update_rows_valid)

lemma completion_valid:
  "statuses_valid d \<Longrightarrow> statuses_valid (check_completion_after_review NEW d)"
  unfolding statuses_valid_def check_completion_after_review_def check_document_completion_def Let_def
  by (auto simp: list_all_iff processing_statuses_def split: option.splits)

lemma fold_completion_valid:
  "statuses_valid d \<Longrightarrow> statuses_valid (fold check_completion_after_review rows d)"
  by (induction rows arbitrary: d) (auto simp: completion_valid)

lemma set_review_status_valid:
  "set_review_status i s d = Inr d' \<Longrightarrow> statuses_valid d \<Longrightarrow> statuses_valid d'"
proof -
  assume a: "set_review_status i s d = Inr d'" and v: "statuses_valid d"
  have "statuses_valid (d\<lparr>document_chunks := rows\<rparr>)" for rows
    using v by (simp add: statuses_valid_def)
  then show ?thesis
    using a unfolding set_review_status_def Let_def
    by (auto split: if_splits simp: fold_completion_valid)
qed

lemma uploadDocument_InrD:
  "uploadDocument env f dt d = (Inr i, d1) \<Longrightarrow>
     i = ue_new_id env \<and> d1 = d\<lparr>documents := documents d @ [new_document env f dt]\<rparr>
     \<and> \<not> list_ex (\<lambda>r. d_id r = ue_new_id env) (documents d)
     \<and> documents_check (new_document env f dt)"
  unfolding uploadDocument_def by (auto split: option.splits if_splits)

lemma upload_POST_200D:
  assumes "upload_POST up fault ses form d = (r, d', out)" and "status r = 200"
  shows "\<exists>f dt i. up f dt d = (Inr i, d') \<and> body r = [(''documentId'', JStr i)]"
  using assms
  unfolding upload_POST_def
  by (auto simp: unauthorized_def insufficient_permissions_def internal_server_error_def
        missing_required_fields_def json_response_def
      split: option.splits if_splits js_result.splits prod.splits sum.splits
      dest!: handler_update_rejectedD) blast

text \<open>
  C10. A signed-in curator or admin sends a form with a file, a title and a document
  type, and \<^verbatim>\<open>uploadDocument\<close> (any function in its place) returns an id. The update
  of the document's metadata then fails, whatever the store does; the failure is
  written to the console and nothing else comes of it: the answer is 200 with the id,
  and the database is as \<^verbatim>\<open>uploadDocument\<close> left it.
\<close>

theorem upload_swallows_update_failure:
  assumes "session_user ses = Some u"
    and "\<not> not_curator_or_admin (profile_of u d)"
    and "form = Ok fd"
    and "form_file fd = Some f" and "form_title fd = Some t" and "t \<noteq> []"
    and "form_documentType fd = Some dt" and "dt \<noteq> []"
    and "up f dt d = (Inr documentId, d1)"
  shows "\<exists>updateError.
           fst (update_documents fault (metadata_payload t dt (form_description fd)) documentId d1)
             = Some updateError
         \<and> upload_POST up fault ses form d =
             (json_response [(''documentId'', JStr documentId)] 200, d1,
              [''Failed to update document metadata: '' @ updateError])"
proof -
  obtain e d2 where u: "update_documents fault (metadata_payload t dt (form_description fd)) documentId d1 = (e, d2)"
    by (cases "update_documents fault (metadata_payload t dt (form_description fd)) documentId d1")
  from handler_update_rejectedD [OF u] obtain m where m: "e = Some m" "d2 = d1" by blast
  show ?thesis
    using assms u m by (simp add: upload_POST_def)
qed

text \<open>
  C6. With \<^verbatim>\<open>uploadDocument\<close> as the specification has it, a request answered with 200
  has created the document whose id is in the body, and every document of that id has
  \<^verbatim>\<open>processing_status = pending\<close> in the database the handler leaves. The handler, any
  update of \<^verbatim>\<open>documents\<close> and the completion trigger all keep every status within
  the five of the schema.
\<close>

theorem upload_creates_pending:
  assumes "upload_POST (uploadDocument env) fault ses form d = (r, d', out)" and "status r = 200"
  shows "body r = [(''documentId'', JStr (ue_new_id env))]
       \<and> (\<exists>doc \<in> set (documents d'). d_id doc = ue_new_id env)
       \<and> (\<forall>doc \<in> set (documents d'). d_id doc = ue_new_id env \<longrightarrow> d_processing_status doc = ''pending'')
       \<and> (statuses_valid d \<longrightarrow> statuses_valid d')
       \<and> (statuses_valid d \<longrightarrow> statuses_valid (snd (update_documents fault' pl i d)))
       \<and> (\<forall>d''. statuses_valid d \<and> set_review_status ci s d = Inr d'' \<longrightarrow> statuses_valid d'')"
proof -
  from upload_POST_200D [OF assms] obtain f dt i where
    up: "uploadDocument env f dt d = (Inr i, d')" and b: "body r = [(''documentId'', JStr i)]" by blast
  from uploadDocument_InrD [OF up] have
    i: "i = ue_new_id env" and d': "d' = d\<lparr>documents := documents d @ [new_document env f dt]\<rparr>"
    and fresh: "\<not> list_ex (\<lambda>r. d_id r = ue_new_id env) (documents d)"
    and chk: "documents_check (new_document env f dt)" by auto
  have n: "d_id (new_document env f dt) = ue_new_id env"
     "d_processing_status (new_document env f dt) = ''pending''"
    by (simp_all add: new_document_def)
  have 1: "\<exists>doc \<in> set (documents d'). d_id doc = ue_new_id env"
    using d' n by auto
  have 2: "\<forall>doc \<in> set (documents d'). d_id doc = ue_new_id env \<longrightarrow> d_processing_status doc = ''pending''"
    using d' n fresh by (auto simp: list_ex_iff)
  have 3: "statuses_valid d \<longrightarrow> statuses_valid d'"
    using d' n by (simp add: statuses_valid_def processing_statuses_def)
  show ?thesis
    using b i 1 2 3 update_documents_valid set_review_status_valid by blast
qed

lemma sample_upload:
  "uploadDocument sample_env sample_file ''fhir'' (db_of (mk_profile ''u1'' ''curator'' True))
     = (Inr ''d1'', (db_of (mk_profile ''u1'' ''curator'' True))
                      \<lparr>documents := [new_document sample_env sample_file ''fhir'']\<rparr>)"
  by (simp add: uploadDocument_def sample_env_def db_of_def documents_check_def new_document_def
        doc_types_def processing_statuses_def)

lemma sample_upload_POST:
  "upload_POST (uploadDocument sample_env) None (session_of (mk_profile ''u1'' ''curator'' True))
       (Ok sample_form) (db_of (mk_profile ''u1'' ''curator'' True))
     = (json_response [(''documentId'', JStr ''d1'')] 200,
        (db_of (mk_profile ''u1'' ''curator'' True))
          \<lparr>documents := [new_document sample_env sample_file ''fhir'']\<rparr>,
        [''Failed to update document metadata: column not found in the schema of documents''])"
proof -
  have p: "\<not> not_curator_or_admin
             (profile_of \<lparr> u_id = ''u1'', u_email = Some ''a@example.org'', u_raw_user_meta_data = None \<rparr>
                (db_of (mk_profile ''u1'' ''curator'' True)))"
    by (simp add: not_curator_or_admin_def profile_of_def db_of_def mk_profile_def)
  have s: "session_user (session_of (mk_profile ''u1'' ''curator'' True))
             = Some \<lparr> u_id = ''u1'', u_email = Some ''a@example.org'', u_raw_user_meta_data = None \<rparr>"
    by (simp add: session_user_session_of mk_profile_def)
  have u: "update_documents None (metadata_payload ''Report'' ''fhir'' None) ''d1'' x
             = (Some ''column not found in the schema of documents'', x)" for x
    by (simp add: update_documents_def metadata_payload_def documents_columns_def)
  show ?thesis
    by (simp add: upload_POST_def s p sample_form_def sample_upload u)
qed

text \<open>The theorem at the upload of \<^verbatim>\<open>report.pdf\<close> by the curator \<open>u1\<close>.\<close>

theorem upload_swallows_update_failure_witness:
  "session_user (session_of (mk_profile ''u1'' ''curator'' True))
     = Some \<lparr> u_id = ''u1'', u_email = Some ''a@example.org'', u_raw_user_meta_data = None \<rparr>
   \<and> \<not> not_curator_or_admin
         (profile_of \<lparr> u_id = ''u1'', u_email = Some ''a@example.org'', u_raw_user_meta_data = None \<rparr>
            (db_of (mk_profile ''u1'' ''curator'' True)))
   \<and> form_file sample_form = Some sample_file \<and> form_title sample_form = Some ''Report''
   \<and> ''Report'' \<noteq> [] \<and> form_documentType sample_form = Some ''fhir'' \<and> ''fhir'' \<noteq> []
   \<and> uploadDocument sample_env sample_file ''fhir'' (db_of (mk_profile ''u1'' ''curator'' True))
       = (Inr ''d1'', (db_of (mk_profile ''u1'' ''curator'' True))
                        \<lparr>documents := [new_document sample_env sample_file ''fhir'']\<rparr>)
   \<and> (\<exists>updateError.
         upload_POST (uploadDocument sample_env) (Some ''connection lost'')
           (session_of (mk_profile ''u1'' ''curator'' True)) (Ok sample_form)
           (db_of (mk_profile ''u1'' ''curator'' True))
         = (json_response [(''documentId'', JStr ''d1'')] 200,
            (db_of (mk_profile ''u1'' ''curator'' True))
              \<lparr>documents := [new_document sample_env sample_file ''fhir'']\<rparr>,
            [''Failed to update document metadata: '' @ updateError]))"
proof -
  have p: "\<not> not_curator_or_admin
             (profile_of \<lparr> u_id = ''u1'', u_email = Some ''a@example.org'', u_raw_user_meta_data = None \<rparr>
                (db_of (mk_profile ''u1'' ''curator'' True)))"
    by (simp add: not_curator_or_admin_def profile_of_def db_of_def mk_profile_def)
  have s: "session_user (session_of (mk_profile ''u1'' ''curator'' True))
             = Some \<lparr> u_id = ''u1'', u_email = Some ''a@example.org'', u_raw_user_meta_data = None \<rparr>"
    by (simp add: session_user_session_of mk_profile_def)
  have f: "form_file sample_form = Some sample_file" "form_title sample_form = Some ''Report''"
    "form_documentType sample_form = Some ''fhir''"
    by (simp_all add: sample_form_def)
  have t: "''Report'' \<noteq> []" "''fhir'' \<noteq> []" by simp_all
  from upload_swallows_update_failure
         [where form = "Ok sample_form" and fd = sample_form and fault = "Some ''connection lost''"
            and up = "uploadDocument sample_env" and f = sample_file and t = "''Report''"
            and dt = "''fhir''",
          OF s p refl f(1) f(2) t(1) f(3) t(2) sample_upload]
  have "\<exists>updateError.
         upload_POST (uploadDocument sample_env) (Some ''connection lost'')
           (session_of (mk_profile ''u1'' ''curator'' True)) (Ok sample_form)
           (db_of (mk_profile ''u1'' ''curator'' True))
         = (json_response [(''documentId'', JStr ''d1'')] 200,
            (db_of (mk_profile ''u1'' ''curator'' True))
              \<lparr>documents := [new_document sample_env sample_file ''fhir'']\<rparr>,
            [''Failed to update document metadata: '' @ updateError])"
    by blast
  then show ?thesis
    using s p f t sample_upload by simp
qed

theorem upload_creates_pending_witness:
  "upload_POST (uploadDocument sample_env) None (session_of (mk_profile ''u1'' ''curator'' True))
       (Ok sample_form) (db_of (mk_profile ''u1'' ''curator'' True))
     = (json_response [(''documentId'', JStr ''d1'')] 200,
        (db_of (mk_profile ''u1'' ''curator'' True))
          \<lparr>documents := [new_document sample_env sample_file ''fhir'']\<rparr>,
        [''Failed to update document metadata: column not found in the schema of documents''])
   \<and> status (json_response [(''documentId'', JStr ''d1'')] 200) = 200
   \<and> ue_new_id sample_env = ''d1''
   \<and> map d_processing_status
        (documents ((db_of (mk_profile ''u1'' ''curator'' True))
                      \<lparr>documents := [new_document sample_env sample_file ''fhir'']\<rparr>)) = [''pending'']
   \<and> statuses_valid (db_of (mk_profile ''u1'' ''curator'' True))
   \<and> statuses_valid ((db_of (mk_profile ''u1'' ''curator'' True))
                      \<lparr>documents := [new_document sample_env sample_file ''fhir'']\<rparr>)"
proof -
  have st: "status (json_response [(''documentId'', JStr ''d1'')] 200) = 200"
    by (simp add: json_response_def)
  have v: "statuses_valid (db_of (mk_profile ''u1'' ''curator'' True))"
    by (simp add: statuses_valid_def db_of_def)
  from upload_creates_pending [OF sample_upload_POST st]
  have "statuses_valid (db_of (mk_profile ''u1'' ''curator'' True)) \<longrightarrow>
        statuses_valid ((db_of (mk_profile ''u1'' ''curator'' True))
                      \<lparr>documents := [new_document sample_env sample_file ''fhir'']\<rparr>)"
    by blast
  then have w: "statuses_valid ((db_of (mk_profile ''u1'' ''curator'' True))
                      \<lparr>documents := [new_document sample_env sample_file ''fhir'']\<rparr>)"
    using v by simp
  have e: "ue_new_id sample_env = ''d1''"
    by (simp add: sample_env_def)
  have m: "map d_processing_status
        (documents ((db_of (mk_profile ''u1'' ''curator'' True))
                      \<lparr>documents := [new_document sample_env sample_file ''fhir'']\<rparr>)) = [''pending'']"
    by (simp add: new_document_def)
  show ?thesis
    using sample_upload_POST st e m v w by simp
qed

section \<open>Properties of the completion trigger\<close>

lemma check_document_completion_eq:
  "check_document_completion NEW d =
     (if completes d (c_document_id NEW)
      then d\<lparr>documents := complete_doc (c_document_id NEW) (documents d)\<rparr> else d)"
  by (simp add: check_document_completion_def completes_def complete_doc_def Let_def split: option.splits)

lemma filter_complete_doc:
  "map d_total_chunks (filter (\<lambda>r. d_id r = j) (complete_doc i rs))
     = map d_total_chunks (filter (\<lambda>r. d_id r = j) rs)"
  by (induction rs) (auto simp: complete_doc_def)

lemma completes_complete_doc [simp]:
  "completes (d\<lparr>documents := complete_doc i (documents d)\<rparr>) j = completes d j"
  by (simp add: completes_def total_of_def reviewed_count_def filter_complete_doc split: option.splits)

lemma fold_check_completion:
  assumes "\<forall>c \<in> set rows. c_review_status c \<in> set [''approved'', ''rejected'']"
  shows "fold check_completion_after_review rows d =
           d\<lparr>documents :=
               map (\<lambda>r. if (\<exists>c \<in> set rows. c_document_id c = d_id r) \<and> completes d (d_id r)
                         then r\<lparr>d_processing_status := ''completed''\<rparr> else r)
                   (documents d)\<rparr>"
  using assms
proof (induction rows arbitrary: d)
  case Nil
  then show ?case by simp
next
  case (Cons c rows)
  let ?d1 = "check_completion_after_review c d"
  have c: "c_review_status c \<in> set [''approved'', ''rejected'']" using Cons.prems by simp
  have ih: "fold check_completion_after_review rows ?d1 =
           ?d1\<lparr>documents :=
               map (\<lambda>r. if (\<exists>c \<in> set rows. c_document_id c = d_id r) \<and> completes ?d1 (d_id r)
                         then r\<lparr>d_processing_status := ''completed''\<rparr> else r)
                   (documents ?d1)\<rparr>"
    using Cons.IH [of ?d1] Cons.prems by simp
  have d1: "?d1 = (if completes d (c_document_id c)
      then d\<lparr>documents := complete_doc (c_document_id c) (documents d)\<rparr> else d)"
    using c by (simp add: check_completion_after_review_def check_document_completion_eq)
  have cd: "completes ?d1 j = completes d j" for j
    by (simp add: d1)
  show ?case
  proof (cases "completes d (c_document_id c)")
    case True
    then show ?thesis
      unfolding fold_simps ih cd
      by (simp add: d1 complete_doc_def)
        (rule arg_cong [where f = "\<lambda>x. d\<lparr>documents := x\<rparr>"], rule map_cong, auto)
  next
    case False
    then show ?thesis
      unfolding fold_simps ih cd
      by (simp add: d1)
        (rule arg_cong [where f = "\<lambda>x. d\<lparr>documents := x\<rparr>"], rule map_cong, auto)
  qed
qed

lemma fold_no_completion:
  assumes "\<forall>c \<in> set rows. c_review_status c \<notin> set [''approved'', ''rejected'']"
  shows "fold check_completion_after_review rows d = d"
  using assms by (induction rows arbitrary: d) (simp_all add: check_completion_after_review_def)

lemma filter_id_distinct:
  "distinct (map d_id rs) \<Longrightarrow> x \<in> set rs \<Longrightarrow> filter (\<lambda>r. d_id r = d_id x) rs = [x]"
proof (induction rs)
  case Nil
  then show ?case by simp
next
  case (Cons r rs)
  show ?case
  proof (cases "x = r")
    case True
    have nin: "d_id r \<notin> d_id ` set rs"
      using Cons.prems(1) by simp
    have "\<forall>y \<in> set rs. d_id y \<noteq> d_id r"
    proof
      fix y assume "y \<in> set rs"
      then have "d_id y \<in> d_id ` set rs" by (rule imageI)
      with nin show "d_id y \<noteq> d_id r" by auto
    qed
    then have "filter (\<lambda>y. d_id y = d_id r) rs = []"
      by (simp add: filter_empty_conv)
    then show ?thesis using True by simp
  next
    case False
    then have "x \<in> set rs" using Cons.prems by simp
    moreover have "d_id x \<in> d_id ` set rs" using \<open>x \<in> set rs\<close> by (rule imageI)
    then have "d_id r \<noteq> d_id x" using Cons.prems(1) by auto
    ultimately show ?thesis using Cons by simp
  qed
qed

lemma total_of_distinct:
  "distinct (map d_id (documents d)) \<Longrightarrow> x \<in> set (documents d) \<Longrightarrow> total_of d (d_id x) = d_total_chunks x"
  by (simp add: total_of_def filter_id_distinct)

lemma set_review_status_InrD:
  assumes "set_review_status i s d = Inr d'"
  shows "d' = fold check_completion_after_review
                (filter (\<lambda>c. c_id c = i)
                   (map (\<lambda>c. if c_id c = i then c\<lparr>c_review_status := s\<rparr> else c) (document_chunks d)))
                (d\<lparr>document_chunks :=
                     map (\<lambda>c. if c_id c = i then c\<lparr>c_review_status := s\<rparr> else c) (document_chunks d)\<rparr>)"
  using assms unfolding set_review_status_def Let_def by (auto split: if_splits)



lemma updated_eq:
  "filter (\<lambda>c. c_id c = i) (map (\<lambda>c. if c_id c = i then c\<lparr>c_review_status := s\<rparr> else c) cs)
     = map (\<lambda>c. c\<lparr>c_review_status := s\<rparr>) (filter (\<lambda>c. c_id c = i) cs)"
  by (induction cs) simp_all

lemma updated_status:
  "\<forall>c \<in> set (filter (\<lambda>c. c_id c = i)
          (map (\<lambda>c. if c_id c = i then c\<lparr>c_review_status := s\<rparr> else c) cs)). c_review_status c = s"
  unfolding updated_eq by simp

lemma updated_owner:
  "(\<exists>c \<in> set (filter (\<lambda>c. c_id c = i)
          (map (\<lambda>c. if c_id c = i then c\<lparr>c_review_status := s\<rparr> else c) cs)). c_document_id c = j)
   = (\<exists>c \<in> set cs. c_id c = i \<and> c_document_id c = j)"
  unfolding updated_eq set_map bex_simps set_filter by (simp add: Bex_def conj_ac)

text \<open>
  C2 (as amended). After the statement that sets the review status of the chunk \<open>i\<close> to
  \<open>s\<close> has succeeded, in a database whose document ids are distinct: the chunks are as
  before but for that status; a document's \<^verbatim>\<open>processing_status\<close> has become
  \<^verbatim>\<open>completed\<close> exactly if \<open>s\<close> is approved or rejected, the chunk belongs to the
  document, \<^verbatim>\<open>total_chunks\<close> is some \<open>N\<close> and at least \<open>N\<close> of its chunks are
  then approved, rejected or filtered; every other document row is as it was. So a
  status other than approved and rejected changes no document, and no document with
  fewer than \<open>N\<close> terminal chunks is changed.
\<close>

theorem completion_on_review:
  assumes ok: "set_review_status i s d = Inr d'"
    and pk: "distinct (map d_id (documents d))"
  shows
   "document_chunks d' =
      map (\<lambda>c. if c_id c = i then c\<lparr>c_review_status := s\<rparr> else c) (document_chunks d)
    \<and> documents d' =
        map (\<lambda>x. if s \<in> set [''approved'', ''rejected'']
                     \<and> (\<exists>c \<in> set (document_chunks d). c_id c = i \<and> c_document_id c = d_id x)
                     \<and> (\<exists>N. d_total_chunks x = Some N \<and> N \<le> reviewed_count d' (d_id x))
                  then x\<lparr>d_processing_status := ''completed''\<rparr> else x)
            (documents d)
    \<and> (s \<notin> set [''approved'', ''rejected''] \<longrightarrow> documents d' = documents d)
    \<and> (\<forall>x \<in> set (documents d). \<forall>N. d_total_chunks x = Some N \<and> reviewed_count d' (d_id x) < N
          \<longrightarrow> x \<in> set (documents d'))"
    (is "?A \<and> ?B \<and> ?C \<and> ?D")
proof -
  define rows where
    "rows = map (\<lambda>c. if c_id c = i then c\<lparr>c_review_status := s\<rparr> else c) (document_chunks d)"
  define upd where "upd = filter (\<lambda>c. c_id c = i) rows"
  define d1 where "d1 = d\<lparr>document_chunks := rows\<rparr>"
  define fires :: "document \<Rightarrow> bool" where
    "fires = (\<lambda>x. s \<in> set [''approved'', ''rejected'']
                 \<and> (\<exists>c \<in> set (document_chunks d). c_id c = i \<and> c_document_id c = d_id x)
                 \<and> (\<exists>N. d_total_chunks x = Some N \<and> N \<le> reviewed_count d' (d_id x)))"
  define fin :: "document \<Rightarrow> document" where
    "fin = (\<lambda>x. x\<lparr>d_processing_status := ''completed''\<rparr>)"
  have d': "d' = fold check_completion_after_review upd d1"
    unfolding upd_def d1_def rows_def by (rule set_review_status_InrD [OF ok])
  have st: "\<forall>c \<in> set upd. c_review_status c = s"
    unfolding upd_def rows_def by (rule updated_status)
  have own: "(\<exists>c \<in> set upd. c_document_id c = j)
             = (\<exists>c \<in> set (document_chunks d). c_id c = i \<and> c_document_id c = j)" for j
    unfolding upd_def rows_def by (rule updated_owner)
  have docs1: "documents d1 = documents d" and chunks1: "document_chunks d1 = rows"
    by (simp_all add: d1_def)
  have chunks_docs: "document_chunks d' = rows
                     \<and> documents d' = map (\<lambda>x. if fires x then fin x else x) (documents d)"
  proof (cases "s \<in> set [''approved'', ''rejected'']")
    case True
    have "\<forall>c \<in> set upd. c_review_status c \<in> set [''approved'', ''rejected'']"
    proof
      fix c assume "c \<in> set upd"
      with st have "c_review_status c = s" by (rule bspec)
      with True show "c_review_status c \<in> set [''approved'', ''rejected'']" by simp
    qed
    from fold_check_completion [OF this, of d1]
    have f: "d' = d1\<lparr>documents :=
               map (\<lambda>r. if (\<exists>c \<in> set upd. c_document_id c = d_id r) \<and> completes d1 (d_id r)
                         then fin r else r)
                   (documents d)\<rparr>"
      unfolding d' docs1 fin_def .
    have ch: "document_chunks d' = rows"
      by (subst f) (simp add: chunks1)
    have rc: "reviewed_count d' j = reviewed_count d1 j" for j
      by (simp add: reviewed_count_def ch chunks1)
    have "documents d' =
               map (\<lambda>r. if (\<exists>c \<in> set upd. c_document_id c = d_id r) \<and> completes d1 (d_id r)
                         then fin r else r)
                   (documents d)"
      by (subst f) simp
    also have "\<dots> = map (\<lambda>x. if fires x then fin x else x) (documents d)"
    proof (rule map_cong [OF refl])
      fix x assume x: "x \<in> set (documents d)"
      have t: "total_of d1 (d_id x) = d_total_chunks x"
        using total_of_distinct [of d1 x] pk x by (simp add: docs1)
      have "completes d1 (d_id x) = (\<exists>N. d_total_chunks x = Some N \<and> N \<le> reviewed_count d' (d_id x))"
        by (simp add: completes_def t rc split: option.splits)
      then have "((\<exists>c \<in> set upd. c_document_id c = d_id x) \<and> completes d1 (d_id x)) = fires x"
        unfolding fires_def own using True by simp
      then show "(if (\<exists>c \<in> set upd. c_document_id c = d_id x) \<and> completes d1 (d_id x)
                  then fin x else x) = (if fires x then fin x else x)"
        by simp
    qed
    finally show ?thesis using ch by simp
  next
    case False
    have "\<forall>c \<in> set upd. c_review_status c \<notin> set [''approved'', ''rejected'']"
    proof
      fix c assume "c \<in> set upd"
      with st have "c_review_status c = s" by (rule bspec)
      with False show "c_review_status c \<notin> set [''approved'', ''rejected'']" by simp
    qed
    from fold_no_completion [OF this, of d1] have e: "d' = d1" using d' by simp
    have nf: "\<not> fires x" for x
      unfolding fires_def using False by simp
    have "map (\<lambda>x. if fires x then fin x else x) (documents d) = documents d"
      by (simp add: nf)
    then show ?thesis
      by (simp add: e docs1 chunks1)
  qed
  have unchanged: "s \<notin> set [''approved'', ''rejected''] \<longrightarrow> documents d' = documents d"
  proof
    assume n: "s \<notin> set [''approved'', ''rejected'']"
    have nf: "\<not> fires x" for x
      unfolding fires_def using n by simp
    show "documents d' = documents d"
      using chunks_docs by (simp add: nf)
  qed
  have before: "\<forall>x \<in> set (documents d). \<forall>N. d_total_chunks x = Some N \<and> reviewed_count d' (d_id x) < N
          \<longrightarrow> x \<in> set (documents d')"
  proof (intro ballI allI impI)
    fix x N assume x: "x \<in> set (documents d)"
      and n: "d_total_chunks x = Some N \<and> reviewed_count d' (d_id x) < N"
    then have "\<not> fires x" unfolding fires_def by simp
    then have "x = (\<lambda>x. if fires x then fin x else x) x" by simp
    then have "x \<in> (\<lambda>x. if fires x then fin x else x) ` set (documents d)"
      using x by (rule image_eqI)
    then show "x \<in> set (documents d')" using chunks_docs by simp
  qed
  note cd = chunks_docs [unfolded rows_def fires_def fin_def]
  show ?thesis
  proof (intro conjI)
    show ?A using cd by (rule conjunct1)
    show ?B using cd by (rule conjunct2)
    show ?C by (rule unchanged)
    show ?D by (rule before)
  qed
qed

lemma review_db_update:
  "set_review_status ''c2'' s (review_db n st s1 s2) =
     (if s \<in> set review_statuses
      then Inr (fold check_completion_after_review [mk_chunk ''c2'' ''d1'' 1 s] (review_db n st s1 s))
      else Inl ''new row for relation document_chunks violates a check constraint'')"
  by (simp add: set_review_status_def review_db_def mk_chunk_def chunk_check_def Let_def)

lemma review_db_count:
  "reviewed_count (review_db n st s1 s2) ''d1''
     = (if s1 \<in> set terminal_statuses then 1 else 0) + (if s2 \<in> set terminal_statuses then 1 else 0)"
  by (simp add: reviewed_count_def review_db_def mk_chunk_def)

lemma review_db_total: "total_of (review_db n st s1 s2) ''d1'' = Some n"
  by (simp add: total_of_def review_db_def mk_document_def)

lemma approve_last:
  "set_review_status ''c2'' ''approved'' (review_db 2 ''review'' ''rejected'' ''pending'')
     = Inr (review_db 2 ''completed'' ''rejected'' ''approved'')"
  by (simp add: review_db_update review_statuses_def check_completion_after_review_def
        check_document_completion_def review_db_count review_db_total terminal_statuses_def mk_chunk_def)
     (simp add: review_db_def mk_document_def)

lemma approve_first:
  "set_review_status ''c2'' ''approved'' (review_db 2 ''review'' ''pending'' ''pending'')
     = Inr (review_db 2 ''review'' ''pending'' ''approved'')"
  by (simp add: review_db_update review_statuses_def check_completion_after_review_def
        check_document_completion_def review_db_count review_db_total terminal_statuses_def mk_chunk_def)

lemma filter_last:
  "set_review_status ''c2'' ''filtered'' (review_db 2 ''review'' ''approved'' ''pending'')
     = Inr (review_db 2 ''review'' ''approved'' ''filtered'')"
  by (simp add: review_db_update review_statuses_def check_completion_after_review_def mk_chunk_def)

text \<open>
  The theorem at a document of two chunks: approving the second after the first was
  rejected completes it; approving one while the other is pending leaves it in review.
\<close>

theorem completion_on_review_witness:
  "set_review_status ''c2'' ''approved'' (review_db 2 ''review'' ''rejected'' ''pending'')
     = Inr (review_db 2 ''completed'' ''rejected'' ''approved'')
   \<and> distinct (map d_id (documents (review_db 2 ''review'' ''rejected'' ''pending'')))
   \<and> reviewed_count (review_db 2 ''completed'' ''rejected'' ''approved'') ''d1'' = 2
   \<and> map d_processing_status (documents (review_db 2 ''completed'' ''rejected'' ''approved'')) = [''completed'']
   \<and> set_review_status ''c2'' ''approved'' (review_db 2 ''review'' ''pending'' ''pending'')
     = Inr (review_db 2 ''review'' ''pending'' ''approved'')
   \<and> reviewed_count (review_db 2 ''review'' ''pending'' ''approved'') ''d1'' = 1
   \<and> mk_document ''d1'' ''review'' (Some 2) \<in> set (documents (review_db 2 ''review'' ''pending'' ''approved''))"
proof -
  have pk: "distinct (map d_id (documents (review_db n st s1 s2)))" for n st s1 s2
    by (simp add: review_db_def)
  have c2: "reviewed_count (review_db 2 ''completed'' ''rejected'' ''approved'') ''d1'' = 2"
    by (simp add: review_db_count terminal_statuses_def)
  have c1: "reviewed_count (review_db 2 ''review'' ''pending'' ''approved'') ''d1'' = 1"
    by (simp add: review_db_count terminal_statuses_def)
  have m: "mk_document ''d1'' ''review'' (Some 2) \<in> set (documents (review_db 2 ''review'' ''pending'' ''pending''))"
    "d_total_chunks (mk_document ''d1'' ''review'' (Some 2)) = Some 2"
    "d_id (mk_document ''d1'' ''review'' (Some 2)) = ''d1''"
    by (simp_all add: review_db_def mk_document_def)
  have s: "map d_processing_status (documents (review_db 2 ''completed'' ''rejected'' ''approved'')) = [''completed'']"
    by (simp add: review_db_def mk_document_def)
  from completion_on_review [OF approve_first pk]
  have "\<forall>x \<in> set (documents (review_db 2 ''review'' ''pending'' ''pending'')).
          \<forall>N. d_total_chunks x = Some N
               \<and> reviewed_count (review_db 2 ''review'' ''pending'' ''approved'') (d_id x) < N
          \<longrightarrow> x \<in> set (documents (review_db 2 ''review'' ''pending'' ''approved''))"
    by (rule conjunct2 [THEN conjunct2, THEN conjunct2])
  then have "mk_document ''d1'' ''review'' (Some 2) \<in> set (documents (review_db 2 ''review'' ''pending'' ''approved''))"
    using m c1 by (metis one_less_numeral_iff semiring_norm(76))
  then show ?thesis
    using approve_last approve_first pk c2 c1 s by simp
qed

text \<open>
  C2 as stated fails: the second of two chunks becomes filtered after the first was
  approved; both chunks are then terminal, \<^verbatim>\<open>total_chunks\<close> is 2, and the document is
  still in review, because the trigger does not run for \<^verbatim>\<open>filtered\<close>.
\<close>

theorem completion_filtered_counterexample:
  "set_review_status ''c2'' ''filtered'' (review_db 2 ''review'' ''approved'' ''pending'')
     = Inr (review_db 2 ''review'' ''approved'' ''filtered'')
   \<and> map d_total_chunks (documents (review_db 2 ''review'' ''approved'' ''filtered'')) = [Some 2]
   \<and> reviewed_count (review_db 2 ''review'' ''approved'' ''filtered'') ''d1'' = 2
   \<and> map d_processing_status (documents (review_db 2 ''review'' ''approved'' ''filtered'')) = [''review'']"
  using filter_last
  by (simp add: review_db_count terminal_statuses_def) (simp add: review_db_def mk_document_def)

section \<open>Properties of the signup trigger\<close>






section \<open>Properties of the similarity search\<close>









text \<open>A negative limit is an error of the query, and nothing is returned.\<close>

lemma match_documents_negative:
  "n < 0 \<Longrightarrow> match_documents cdist kb q t (Some n) fdt fuc p = Inl ''LIMIT must not be negative''"
  by (simp add: match_documents_def sql_limit_def)





end
